theory Spec2Isabelle
  imports Complex_Main "HOL-Library.Log_Nat"
begin

section \<open>Conventions of the embedding\<close>

text \<open>
  The gateway is TypeScript. Its \<open>number\<close>s are IEEE 754 doubles. Counters are modelled
  as \<open>nat\<close>, clock readings (milliseconds since the epoch) and configured durations as
  \<open>int\<close>, measured and computed quantities as \<open>real\<close>. The rounding of double arithmetic
  is modelled where it decides a discrete result, in the index computed by
  \<open>calculatePercentile\<close>; elsewhere quantities are exact. Every read of the wall clock
  (\<open>Date.now()\<close>, \<open>new Date()\<close>) is a parameter of the function that performs it.
  Logging and event emission have no effect on the modelled state and are left out.
\<close>

subsection \<open>Strings and arrays\<close>

text \<open>\<open>String.prototype.includes\<close>: the argument occurs as a contiguous substring.\<close>

fun str_includes :: "string \<Rightarrow> string \<Rightarrow> bool" where
  "str_includes [] sub = (sub = [])"
| "str_includes (c # cs) sub = (take (length sub) (c # cs) = sub \<or> str_includes cs sub)"

text \<open>\<open>Array.prototype.some\<close>.\<close>

fun some :: "('a \<Rightarrow> bool) \<Rightarrow> 'a list \<Rightarrow> bool" where
  "some p [] = False"
| "some p (x # xs) = (p x \<or> some p xs)"

text \<open>\<open>array[i]\<close>: \<open>undefined\<close> (here \<open>None\<close>) outside \<open>0 .. length - 1\<close>.\<close>

definition js_index :: "'a list \<Rightarrow> int \<Rightarrow> 'a option" where
  "js_index xs i = (if 0 \<le> i \<and> i < int (length xs) then Some (xs ! nat i) else None)"

text \<open>An \<open>Error\<close> object; only its message is inspected by the code modelled here.\<close>

datatype Error = Error (message: string)

text \<open>
  The promise returned by a wrapped asynchronous function: it resolves with a value,
  rejects with an error, or never settles.
\<close>

datatype 'a Settled = Resolved 'a | Rejected Error | Pending

text \<open>What a caller of an \<open>async\<close> method observes.\<close>

datatype 'a Completion = Returned 'a | Threw Error | NeverReturns

section \<open>Circuit breaker (gateway/src/services/circuitBreaker.ts)\<close>

datatype CircuitState = CLOSED | OPEN | HALF_OPEN

record CircuitBreakerOptions =
  threshold :: int
  timeout :: int
  resetTimeout :: int
  monitoringPeriod :: int
  expectedErrors :: "string list"

record CircuitBreaker =
  serviceName :: string
  state :: CircuitState
  failureCount :: nat
  lastFailureTime :: "int option"
  nextRetryTime :: "int option"
  successCount :: nat
  options :: CircuitBreakerOptions

text \<open>
  The field initialisers of the class, for a service name and the options the
  constructor has resolved against the configuration.
\<close>

definition newCircuitBreaker :: "string \<Rightarrow> CircuitBreakerOptions \<Rightarrow> CircuitBreaker" where
  "newCircuitBreaker sn opts =
     \<lparr>serviceName = sn, state = CLOSED, failureCount = 0, lastFailureTime = None,
      nextRetryTime = None, successCount = 0, options = opts\<rparr>"

text \<open>\<open>open()\<close>; \<open>now\<close> is the value of \<open>Date.now()\<close>.\<close>

definition openCircuit :: "int \<Rightarrow> CircuitBreaker \<Rightarrow> CircuitBreaker" where
  "openCircuit now cb =
     cb\<lparr>state := OPEN, nextRetryTime := Some (now + resetTimeout (options cb))\<rparr>"

text \<open>\<open>reset()\<close>.\<close>

definition reset :: "CircuitBreaker \<Rightarrow> CircuitBreaker" where
  "reset cb =
     cb\<lparr>state := CLOSED, failureCount := 0, successCount := 0,
        lastFailureTime := None, nextRetryTime := None\<rparr>"

text \<open>\<open>shouldAttemptReset()\<close>; \<open>now\<close> is the value of \<open>new Date()\<close>.\<close>

definition shouldAttemptReset :: "int \<Rightarrow> CircuitBreaker \<Rightarrow> bool" where
  "shouldAttemptReset now cb =
     (case nextRetryTime cb of Some t \<Rightarrow> t \<le> now | None \<Rightarrow> False)"

text \<open>\<open>onSuccess()\<close>.\<close>

definition onSuccess :: "CircuitBreaker \<Rightarrow> CircuitBreaker" where
  "onSuccess cb =
     (let cb1 = cb\<lparr>successCount := successCount cb + 1\<rparr>
      in if state cb1 = HALF_OPEN then reset cb1
         else if state cb1 = CLOSED then cb1\<lparr>failureCount := 0\<rparr>
         else cb1)"

text \<open>The test \<open>isExpectedError\<close> computed at the head of \<open>onFailure\<close>.\<close>

definition isExpectedError :: "CircuitBreaker \<Rightarrow> Error \<Rightarrow> bool" where
  "isExpectedError cb err =
     some (\<lambda>expectedError. str_includes (message err) expectedError)
       (expectedErrors (options cb))"

text \<open>
  \<open>onFailure(error)\<close>; \<open>tFail\<close> is the clock read stored in \<open>lastFailureTime\<close>,
  \<open>tOpen\<close> the one made by \<open>open()\<close>.
\<close>

definition onFailure :: "Error \<Rightarrow> int \<Rightarrow> int \<Rightarrow> CircuitBreaker \<Rightarrow> CircuitBreaker" where
  "onFailure err tFail tOpen cb =
     (if isExpectedError cb err then cb
      else
        let cb1 = cb\<lparr>failureCount := failureCount cb + 1, lastFailureTime := Some tFail\<rparr>
        in if state cb1 = HALF_OPEN then openCircuit tOpen cb1
           else if state cb1 = CLOSED \<and> threshold (options cb1) \<le> int (failureCount cb1)
             then openCircuit tOpen cb1
           else cb1)"

text \<open>The clock reads one call of \<open>execute\<close> can make.\<close>

record Clock =
  atEntry :: int
  atFailure :: int
  atOpen :: int

text \<open>
  The first block of \<open>execute\<close>: in state OPEN the call is either let through in state
  HALF_OPEN or refused with the breaker's own error.
\<close>

definition executeGuard :: "int \<Rightarrow> CircuitBreaker \<Rightarrow> Error + CircuitBreaker" where
  "executeGuard now cb =
     (if state cb = OPEN then
        (if shouldAttemptReset now cb then Inr (cb\<lparr>state := HALF_OPEN\<rparr>)
         else Inl (Error (''Circuit breaker is OPEN for '' @ serviceName cb)))
      else Inr cb)"

text \<open>
  The \<open>try\<close>/\<open>catch\<close> of \<open>execute\<close>, applied to what the awaited promise did. A promise
  that never settles leaves the breaker as the guard left it.
\<close>

definition executeSettle ::
  "Clock \<Rightarrow> 'a Settled \<times> 'w \<Rightarrow> CircuitBreaker \<Rightarrow> 'a Completion \<times> CircuitBreaker \<times> 'w" where
  "executeSettle clk r cb =
     (case r of
        (Resolved v, w') \<Rightarrow> (Returned v, onSuccess cb, w')
      | (Rejected e, w') \<Rightarrow> (Threw e, onFailure e (atFailure clk) (atOpen clk) cb, w')
      | (Pending, w') \<Rightarrow> (NeverReturns, cb, w'))"

text \<open>
  \<open>execute(fn)\<close>. The wrapped function acts on the rest of the world \<open>'w\<close> (the
  backend, the response under construction, the load balancer); the world it returns is
  the trace of its invocation.
\<close>

definition execute ::
  "Clock \<Rightarrow> ('w \<Rightarrow> 'a Settled \<times> 'w) \<Rightarrow> CircuitBreaker \<Rightarrow> 'w
     \<Rightarrow> 'a Completion \<times> CircuitBreaker \<times> 'w" where
  "execute clk fn cb w =
     (case executeGuard (atEntry clk) cb of
        Inl e \<Rightarrow> (Threw e, cb, w)
      | Inr cb1 \<Rightarrow> executeSettle clk (fn w) cb1)"

text \<open>\<open>calculateUptime()\<close>.\<close>

definition calculateUptime :: "CircuitBreaker \<Rightarrow> real" where
  "calculateUptime cb =
     (let totalCalls = failureCount cb + successCount cb
      in if totalCalls = 0 then 100
         else (real (successCount cb) / real totalCalls) * 100)"

record CircuitBreakerMetrics =
  m_serviceName :: string
  m_state :: CircuitState
  m_failureCount :: nat
  m_successCount :: nat
  m_lastFailureTime :: "int option"
  m_nextRetryTime :: "int option"
  uptime :: real

text \<open>\<open>getMetrics()\<close>.\<close>

definition getMetrics :: "CircuitBreaker \<Rightarrow> CircuitBreakerMetrics" where
  "getMetrics cb =
     \<lparr>m_serviceName = serviceName cb, m_state = state cb,
      m_failureCount = failureCount cb, m_successCount = successCount cb,
      m_lastFailureTime = lastFailureTime cb, m_nextRetryTime = nextRetryTime cb,
      uptime = calculateUptime cb\<rparr>"

text \<open>
  A sequence of calls of \<open>execute\<close> on one breaker, each with its own clock reads and
  wrapped function, one after the other.
\<close>

fun executeAll ::
  "(Clock \<times> ('w \<Rightarrow> 'a Settled \<times> 'w)) list \<Rightarrow> CircuitBreaker \<Rightarrow> 'w \<Rightarrow> CircuitBreaker \<times> 'w" where
  "executeAll [] cb w = (cb, w)"
| "executeAll (call # calls) cb w =
     (case execute (fst call) (snd call) cb w of (r, cb', w') \<Rightarrow> executeAll calls cb' w')"

section \<open>Load balancer (gateway/src/services/loadBalancer.ts)\<close>

datatype HealthStatus = healthy | unhealthy | unknown

record ServiceHealth =
  h_name :: string
  h_url :: string
  status :: HealthStatus
  h_responseTime :: int
  lastChecked :: int
  error :: "string option"

record ServiceInstance =
  inst_id :: string
  url :: string
  health :: ServiceHealth
  weight :: real
  currentConnections :: int

record LoadBalancerOptions =
  strategy :: string
  healthCheckInterval :: int
  healthCheckTimeout :: int
  retryAttempts :: int
  retryDelay :: int

record LoadBalancer =
  lb_serviceName :: string
  instances :: "ServiceInstance list"
  currentIndex :: nat
  lb_options :: LoadBalancerOptions

text \<open>\<open>getHealthyInstances()\<close>.\<close>

definition getHealthyInstances :: "LoadBalancer \<Rightarrow> ServiceInstance list" where
  "getHealthyInstances lb = filter (\<lambda>instance. status (health instance) = healthy) (instances lb)"

text \<open>
  \<open>roundRobinSelection(instances)\<close>. It is only reached with a non-empty array
  (\<open>getNextInstance\<close> returns \<open>null\<close> before); on the empty array the JavaScript cursor
  would become \<open>NaN\<close>, which the \<open>nat\<close> cursor does not represent.
\<close>

definition roundRobinSelection ::
  "ServiceInstance list \<Rightarrow> LoadBalancer \<Rightarrow> ServiceInstance option \<times> LoadBalancer" where
  "roundRobinSelection insts lb =
     (let instance = js_index insts (int (currentIndex lb mod length insts))
      in (instance, lb\<lparr>currentIndex := (currentIndex lb + 1) mod length insts\<rparr>))"

text \<open>
  \<open>leastConnectionsSelection(instances)\<close>: \<open>reduce\<close> without an initial value starts
  from the first element (and throws on the empty array, which is not reached).
\<close>

fun leastConnectionsSelection :: "ServiceInstance list \<Rightarrow> ServiceInstance option" where
  "leastConnectionsSelection [] = None"
| "leastConnectionsSelection (first # rest) =
     Some (foldl (\<lambda>prev current.
             if currentConnections prev \<le> currentConnections current then prev else current)
           first rest)"

text \<open>The \<open>for\<close> loop of \<open>weightedSelection\<close>; \<open>None\<close> when it falls through.\<close>

fun weightedLoop :: "real \<Rightarrow> ServiceInstance list \<Rightarrow> ServiceInstance option" where
  "weightedLoop random [] = None"
| "weightedLoop random (instance # rest) =
     (let random' = random - weight instance
      in if random' \<le> 0 then Some instance else weightedLoop random' rest)"

text \<open>\<open>weightedSelection(instances)\<close>; \<open>rnd\<close> is the value of \<open>Math.random()\<close>.\<close>

definition weightedSelection :: "real \<Rightarrow> ServiceInstance list \<Rightarrow> ServiceInstance option" where
  "weightedSelection rnd insts =
     (let totalWeight = foldl (\<lambda>sum instance. sum + weight instance) 0 insts
      in case weightedLoop (rnd * totalWeight) insts of
           Some instance \<Rightarrow> Some instance
         | None \<Rightarrow> js_index insts 0)"

text \<open>\<open>randomSelection(instances)\<close>; \<open>rnd\<close> is the value of \<open>Math.random()\<close>.\<close>

definition randomSelection :: "real \<Rightarrow> ServiceInstance list \<Rightarrow> ServiceInstance option" where
  "randomSelection rnd insts =
     (let randomIndex = \<lfloor>rnd * real (length insts)\<rfloor> in js_index insts randomIndex)"

text \<open>
  \<open>getNextInstance()\<close>. The result \<open>None\<close> is \<open>null\<close>. The strategy is the configured
  string; any value other than the four known ones takes the \<open>default\<close> branch.
\<close>

definition getNextInstance :: "real \<Rightarrow> LoadBalancer \<Rightarrow> ServiceInstance option \<times> LoadBalancer" where
  "getNextInstance rnd lb =
     (let healthyInstances = getHealthyInstances lb
      in if length healthyInstances = 0 then (None, lb)
         else if strategy (lb_options lb) = ''round-robin''
           then roundRobinSelection healthyInstances lb
         else if strategy (lb_options lb) = ''least-connections''
           then (leastConnectionsSelection healthyInstances, lb)
         else if strategy (lb_options lb) = ''weighted''
           then (weightedSelection rnd healthyInstances, lb)
         else if strategy (lb_options lb) = ''random''
           then (randomSelection rnd healthyInstances, lb)
         else roundRobinSelection healthyInstances lb)"

text \<open>
  Consecutive calls of \<open>getNextInstance\<close> with nothing else touching the balancer in
  between; one random draw is supplied per call.
\<close>

fun selectMany :: "real list \<Rightarrow> LoadBalancer \<Rightarrow> ServiceInstance option list \<times> LoadBalancer" where
  "selectMany [] lb = ([], lb)"
| "selectMany (rnd # rnds) lb =
     (case getNextInstance rnd lb of
        (r, lb') \<Rightarrow> (case selectMany rnds lb' of (rs, lb'') \<Rightarrow> (r # rs, lb'')))"

subsection \<open>Health probe\<close>

text \<open>
  What the probed endpoint does within the request timeout: it answers with a status
  code, or the timeout elapses first, or the transport fails with a message.
\<close>

datatype HttpOutcome = Response nat | TimedOut | TransportError string

text \<open>Decimal rendering of a number inside an error message.\<close>

fun decimal :: "nat \<Rightarrow> string" where
  "decimal n = (if n < 10 then [''0123456789'' ! n]
                else decimal (n div 10) @ [''0123456789'' ! (n mod 10)])"

declare decimal.simps [simp del]

text \<open>
  The HTTP client (axios, an external library) as the probe uses it: the promise
  resolves with the status when a response arrives in time and \<open>validateStatus\<close> accepts
  it, and rejects with an error otherwise.
\<close>

definition axios_get :: "int \<Rightarrow> (nat \<Rightarrow> bool) \<Rightarrow> HttpOutcome \<Rightarrow> Error + nat" where
  "axios_get timeoutMs validateStatus outcome =
     (case outcome of
        Response st \<Rightarrow>
          if validateStatus st then Inr st
          else Inl (Error (''Request failed with status code '' @ decimal st))
      | TimedOut \<Rightarrow> Inl (Error (''timeout of '' @ decimal (nat timeoutMs) @ ''ms exceeded''))
      | TransportError m \<Rightarrow> Inl (Error m))"

text \<open>
  \<open>checkInstanceHealth(instance)\<close>: \<open>startTime\<close> and \<open>endTime\<close> are the two reads of
  \<open>Date.now()\<close>, \<open>checkedAt\<close> the \<open>new Date()\<close> stored in \<open>lastChecked\<close>, \<open>outcome\<close> what
  the GET to \<open>url/health\<close> meets.
\<close>

definition checkInstanceHealth ::
  "LoadBalancer \<Rightarrow> int \<Rightarrow> int \<Rightarrow> int \<Rightarrow> HttpOutcome \<Rightarrow> ServiceInstance \<Rightarrow> ServiceInstance" where
  "checkInstanceHealth lb startTime endTime checkedAt outcome instance =
     (case axios_get (healthCheckTimeout (lb_options lb)) (\<lambda>status. status = 200) outcome of
        Inr response \<Rightarrow>
          instance\<lparr>health :=
            \<lparr>h_name = lb_serviceName lb, h_url = url instance, status = healthy,
             h_responseTime = endTime - startTime, lastChecked = checkedAt, error = None\<rparr>\<rparr>
      | Inl err \<Rightarrow>
          instance\<lparr>health :=
            \<lparr>h_name = lb_serviceName lb, h_url = url instance, status = unhealthy,
             h_responseTime = endTime - startTime, lastChecked = checkedAt,
             error = Some (message err)\<rparr>\<rparr>)"

section \<open>Proxy service (the second module of gateway/src/services/loadBalancer.ts)\<close>

text \<open>The JSON body of the gateway's own error answer.\<close>

record ErrorBody =
  success :: bool
  code :: string
  err_message :: string
  body_timestamp :: int
  body_requestId :: "string option"

text \<open>The part of the Express response the wrapper reads and writes.\<close>

record Response =
  headersSent :: bool
  res_status :: nat
  res_body :: "ErrorBody option"

text \<open>
  What the wrapped request handler did when it is over: nothing more, \<open>next(error)\<close>, or
  it never finished because the awaited promise never settled.
\<close>

datatype Handled = Done | PassedToNext Error | Hangs

text \<open>
  The handler returned by \<open>wrapWithCircuitBreaker(proxyMiddleware, circuitBreaker,
  serviceName)\<close>, on a request with identifier \<open>requestId\<close>. The promise built around
  \<open>proxyMiddleware\<close> is modelled by its effect: it acts on the response and on the rest of
  the world \<open>'w\<close> (where the load balancer and the backends live) and resolves, rejects
  or stays pending. \<open>now\<close> is the \<open>new Date()\<close> of the error body.
\<close>

definition wrapWithCircuitBreaker ::
  "Clock \<Rightarrow> int \<Rightarrow> string option \<Rightarrow> (Response \<times> 'w \<Rightarrow> unit Settled \<times> Response \<times> 'w) \<Rightarrow> string
     \<Rightarrow> CircuitBreaker \<Rightarrow> Response \<times> 'w \<Rightarrow> Handled \<times> CircuitBreaker \<times> Response \<times> 'w" where
  "wrapWithCircuitBreaker clk now requestId proxyMiddleware svc circuitBreaker rw =
     (case execute clk proxyMiddleware circuitBreaker rw of
        (Returned u, cb', rw') \<Rightarrow> (Done, cb', rw')
      | (NeverReturns, cb', rw') \<Rightarrow> (Hangs, cb', rw')
      | (Threw err, cb', (res, w)) \<Rightarrow>
          if str_includes (message err) ''Circuit breaker is OPEN'' then
            (if \<not> headersSent res then
               (Done, cb',
                (res\<lparr>headersSent := True, res_status := 503,
                     res_body := Some
                       \<lparr>success = False, code = ''SERVICE_UNAVAILABLE'',
                        err_message = svc @ '' service is temporarily unavailable'',
                        body_timestamp = now, body_requestId = requestId\<rparr>\<rparr>, w))
             else (Done, cb', (res, w)))
          else (PassedToNext err, cb', (res, w)))"

text \<open>
  The \<open>router\<close> option of \<open>createServiceProxy\<close> with load balancing enabled: the
  selection made for every proxied request.
\<close>

definition router :: "string \<Rightarrow> real \<Rightarrow> LoadBalancer \<Rightarrow> (Error + string) \<times> LoadBalancer" where
  "router svc rnd lb =
     (case getNextInstance rnd lb of
        (None, lb') \<Rightarrow> (Inl (Error (''No healthy instances available for '' @ svc)), lb')
      | (Some instance, lb') \<Rightarrow> (Inr (url instance), lb'))"

section \<open>Rate-limit store (gateway/src/middleware/rateLimit.ts)\<close>

subsection \<open>The Redis commands the store issues\<close>






subsection \<open>\<open>RedisStore\<close>\<close>





section \<open>Monitoring service (MonitoringService, in src/unnamed/part_005)\<close>

text \<open>
  A JavaScript number that is either an exact real or \<open>NaN\<close>, with the arithmetic the
  monitoring code applies to it; \<open>NaN\<close> is absorbing, also for \<open>Math.max\<close> and
  \<open>Math.min\<close>.
\<close>

datatype JsNumber = Num real | NaN

fun js2 :: "(real \<Rightarrow> real \<Rightarrow> real) \<Rightarrow> JsNumber \<Rightarrow> JsNumber \<Rightarrow> JsNumber" where
  "js2 f (Num a) (Num b) = Num (f a b)"
| "js2 f a b = NaN"

text \<open>\<open>Math.round\<close>: the nearest integer, halves rounded up; \<open>Math.round(undefined)\<close> is \<open>NaN\<close>.\<close>

fun Math_round :: "JsNumber \<Rightarrow> JsNumber" where
  "Math_round (Num x) = Num (of_int \<lfloor>x + 1 / 2\<rfloor>)"
| "Math_round NaN = NaN"

text \<open>The comparison \<open>a <= b\<close>, false as soon as one side is \<open>NaN\<close>.\<close>

fun js_le :: "JsNumber \<Rightarrow> JsNumber \<Rightarrow> bool" where
  "js_le (Num a) (Num b) = (a \<le> b)"
| "js_le a b = False"

record RequestMetrics =
  timestamp :: int
  http_method :: string
  path :: string
  statusCode :: nat
  responseTime :: real
  service :: "string option"
  userId :: "string option"

subsection \<open>Rounding to double precision\<close>

text \<open>Rounding to the nearest integer, a tie going to the even one.\<close>

definition round_half_even :: "real \<Rightarrow> int" where
  "round_half_even y =
     (let f = \<lfloor>y\<rfloor>; d = y - of_int f
      in if d < 1 / 2 then f else if 1 / 2 < d then f + 1 else if even f then f else f + 1)"

text \<open>The binary exponent of a positive number: \<open>2 ^ binade x \<le> x < 2 ^ (binade x + 1)\<close>.\<close>

definition binade :: "real \<Rightarrow> int" where
  "binade x = (if 1 \<le> x then bitlen \<lfloor>x\<rfloor> - 1 else - bitlen (\<lceil>1 / x\<rceil> - 1))"

definition pow2 :: "int \<Rightarrow> real" where
  "pow2 e = (if 0 \<le> e then 2 ^ nat e else 1 / 2 ^ nat (- e))"

text \<open>
  The double nearest to a real number (binary64, round to nearest, ties to even): the
  number is rounded to a multiple of the unit in the last place of its binade, 52 binary
  places below the leading bit, and not below \<open>2 ^ - 1074\<close> (subnormal numbers). The
  exponent is not bounded above: beyond the largest double, where JavaScript yields
  \<open>\<plusminus>Infinity\<close>, \<open>to_double\<close> yields a finite number of the same sign and of magnitude at
  least \<open>2 ^ 1024\<close>.
\<close>

definition to_double :: "real \<Rightarrow> real" where
  "to_double x =
     (if x = 0 then 0
      else
        let e = max (binade \<bar>x\<bar>) (- 1022);
            ulp = pow2 (e - 52);
            m = round_half_even (\<bar>x\<bar> / ulp)
        in sgn x * of_int m * ulp)"

subsection \<open>Aggregation\<close>

text \<open>
  \<open>calculatePercentile(sortedArray, percentile)\<close>. The quotient \<open>percentile / 100\<close> and
  its product with the length are each rounded to a double, as JavaScript computes them;
  \<open>Math.ceil\<close>, the subtraction of 1 and \<open>Math.max\<close> are exact on the results, and so is
  \<open>Math.round\<close> on an element. An array has fewer than \<open>2 ^ 32\<close> elements, so its length
  is a double, and an index of magnitude \<open>2 ^ 1024\<close> or more reads what \<open>\<plusminus>Infinity\<close>
  reads: nothing past the end, the first element from below.
\<close>

definition calculatePercentile :: "real list \<Rightarrow> real \<Rightarrow> JsNumber" where
  "calculatePercentile sortedArray percentile =
     (if length sortedArray = 0 then Num 0
      else
        let index =
              \<lceil>to_double (to_double (percentile / 100) * real (length sortedArray))\<rceil> - 1
        in Math_round (case js_index sortedArray (max 0 index) of
                         Some v \<Rightarrow> Num v
                       | None \<Rightarrow> NaN))"

text \<open>
  The fields of \<open>getAggregatedMetrics()\<close> that the health score reads, with the response
  time summary; the per-status and per-service breakdowns are not modelled.
\<close>

record MetricsData =
  requestCount :: nat
  errorCount :: nat
  average :: real
  p50 :: JsNumber
  p95 :: JsNumber
  p99 :: JsNumber

definition getAggregatedMetrics :: "int \<Rightarrow> RequestMetrics list \<Rightarrow> MetricsData" where
  "getAggregatedMetrics now requestMetrics =
     (let oneHourAgo = now - 60 * 60 * 1000;
          recentMetrics = filter (\<lambda>metric. oneHourAgo \<le> timestamp metric) requestMetrics;
          responseTimes = sort (map responseTime recentMetrics);
          averageResponseTime =
            (if 0 < length responseTimes
             then foldl (\<lambda>sum time. sum + time) 0 responseTimes / real (length responseTimes)
             else 0)
      in \<lparr>requestCount = length recentMetrics,
          errorCount = length (filter (\<lambda>metric. 400 \<le> statusCode metric) recentMetrics),
          average = of_int \<lfloor>averageResponseTime + 1 / 2\<rfloor>,
          p50 = calculatePercentile responseTimes 50,
          p95 = calculatePercentile responseTimes 95,
          p99 = calculatePercentile responseTimes 99\<rparr>)"

text \<open>\<open>calculateAvailability()\<close>; \<open>now\<close> is its own read of \<open>Date.now()\<close>.\<close>

definition calculateAvailability :: "int \<Rightarrow> RequestMetrics list \<Rightarrow> real" where
  "calculateAvailability now requestMetrics =
     (let oneHourAgo = now - 60 * 60 * 1000;
          recentMetrics = filter (\<lambda>metric. oneHourAgo \<le> timestamp metric) requestMetrics
      in if length recentMetrics = 0 then 100
         else
           let successfulRequests = length (filter (\<lambda>metric. statusCode metric < 500) recentMetrics)
           in (real successfulRequests / real (length recentMetrics)) * 100)"

record Factor =
  f_value :: JsNumber
  f_weight :: real
  f_impact :: JsNumber

record Factors =
  errorRate :: Factor
  responseTimeFactor :: Factor
  throughput :: Factor
  availability :: Factor

record HealthScore =
  score :: JsNumber
  factors :: Factors

text \<open>
  \<open>getHealthScore()\<close>, on the metric history; \<open>nowAgg\<close> and \<open>nowAvail\<close> are the clock
  reads of \<open>getAggregatedMetrics\<close> and of \<open>calculateAvailability\<close>. The unused result of
  \<open>getErrorDistribution()\<close> is left out. The factors are summed in the order of the
  object's keys.
\<close>

definition getHealthScore :: "int \<Rightarrow> int \<Rightarrow> RequestMetrics list \<Rightarrow> HealthScore" where
  "getHealthScore nowAgg nowAvail requestMetrics =
     (let metrics = getAggregatedMetrics nowAgg requestMetrics;
          errorRateValue =
            Num (if 0 < requestCount metrics
                 then (real (errorCount metrics) / real (requestCount metrics)) * 100 else 0);
          responseTimeValue = p95 metrics;
          throughputValue = Num (real (requestCount metrics));
          availabilityValue = Num (calculateAvailability nowAvail requestMetrics);
          errorRateImpact = js2 max (Num 0) (js2 (-) (Num 100) (js2 (*) errorRateValue (Num 2)));
          responseTimeImpact =
            js2 max (Num 0)
              (js2 (-) (Num 100) (js2 min (js2 (/) responseTimeValue (Num 50)) (Num 100)));
          throughputImpact = js2 min (Num 100) (js2 (/) throughputValue (Num 10));
          availabilityImpact = availabilityValue;
          fs = [\<lparr>f_value = errorRateValue, f_weight = 30, f_impact = errorRateImpact\<rparr>,
                \<lparr>f_value = responseTimeValue, f_weight = 25, f_impact = responseTimeImpact\<rparr>,
                \<lparr>f_value = throughputValue, f_weight = 20, f_impact = throughputImpact\<rparr>,
                \<lparr>f_value = availabilityValue, f_weight = 25, f_impact = availabilityImpact\<rparr>];
          totalWeight = foldl (\<lambda>sum factor. sum + f_weight factor) 0 fs;
          total =
            foldl (\<lambda>sum factor.
                     js2 (+) sum (js2 (/) (js2 (*) (f_impact factor) (Num (f_weight factor)))
                                        (Num totalWeight)))
                  (Num 0) fs
      in \<lparr>score = Math_round total,
          factors = \<lparr>errorRate = fs ! 0, responseTimeFactor = fs ! 1,
                     throughput = fs ! 2, availability = fs ! 3\<rparr>\<rparr>)"

section \<open>Sample data for the concrete checks\<close>

text \<open>
  A breaker for the service \<open>content\<close> with the threshold and reset timeout of the
  specification's scenario and one allow-listed error text; wrapped functions over a
  world that counts their invocations; the breaker as three refused connections leave it.
\<close>

definition sampleOptions :: CircuitBreakerOptions where
  "sampleOptions =
     \<lparr>threshold = 3, timeout = 60000, resetTimeout = 30000, monitoringPeriod = 60000,
      expectedErrors = [''status code 404'']\<rparr>"

definition failingCall :: "int \<Rightarrow> Clock \<times> (nat \<Rightarrow> unit Settled \<times> nat)" where
  "failingCall t =
     (\<lparr>atEntry = t, atFailure = t + 5, atOpen = t + 5\<rparr>,
      \<lambda>n. (Rejected (Error ''connect ECONNREFUSED''), n + 1))"

definition openedBreaker :: CircuitBreaker where
  "openedBreaker =
     \<lparr>serviceName = ''content'', state = OPEN, failureCount = 3,
      lastFailureTime = Some 2005, nextRetryTime = Some 32005, successCount = 0,
      options = sampleOptions\<rparr>"

definition succeedingCall :: "int \<Rightarrow> Clock \<times> (nat \<Rightarrow> unit Settled \<times> nat)" where
  "succeedingCall t =
     (\<lparr>atEntry = t, atFailure = t + 5, atOpen = t + 5\<rparr>, \<lambda>n. (Resolved (), n + 1))"

definition notFoundCall :: "int \<Rightarrow> Clock \<times> (nat \<Rightarrow> unit Settled \<times> nat)" where
  "notFoundCall t =
     (\<lparr>atEntry = t, atFailure = t + 5, atOpen = t + 5\<rparr>,
      \<lambda>n. (Rejected (Error ''Request failed with status code 404''), n + 1))"

text \<open>
  A pool of four instances of which three are healthy, a pool with none, a proxy
  middleware that routes through the balancer, and a response not yet started.
\<close>

definition sampleInstance :: "string \<Rightarrow> HealthStatus \<Rightarrow> ServiceInstance" where
  "sampleInstance u st =
     \<lparr>inst_id = ''content-'' @ u, url = ''http://content-'' @ u @ '':3002'',
      health = \<lparr>h_name = ''content'', h_url = ''http://content-'' @ u @ '':3002'', status = st,
                h_responseTime = 12, lastChecked = 1000, error = None\<rparr>,
      weight = 1, currentConnections = 0\<rparr>"

definition sampleBalancer :: "string \<Rightarrow> LoadBalancer" where
  "sampleBalancer strat =
     \<lparr>lb_serviceName = ''content'',
      instances = [sampleInstance ''a'' healthy, sampleInstance ''x'' unhealthy,
                   sampleInstance ''b'' healthy, sampleInstance ''c'' healthy],
      currentIndex = 0,
      lb_options = \<lparr>strategy = strat, healthCheckInterval = 30000, healthCheckTimeout = 5000,
                    retryAttempts = 3, retryDelay = 1000\<rparr>\<rparr>"

definition downBalancer :: "string \<Rightarrow> LoadBalancer" where
  "downBalancer strat =
     (sampleBalancer strat)\<lparr>instances := [sampleInstance ''x'' unhealthy, sampleInstance ''u'' unknown]\<rparr>"

definition sampleProxy :: "Response \<times> LoadBalancer \<Rightarrow> unit Settled \<times> Response \<times> LoadBalancer" where
  "sampleProxy rw =
     (case router ''content'' (1 / 2) (snd rw) of
        (Inl e, lb') \<Rightarrow> (Rejected e, (fst rw, lb'))
      | (Inr target, lb') \<Rightarrow>
          (Resolved (), ((fst rw)\<lparr>headersSent := True, res_status := 200\<rparr>, lb')))"

definition freshResponse :: Response where
  "freshResponse = \<lparr>headersSent = False, res_status = 200, res_body = None\<rparr>"


definition sampleMetric :: "int \<Rightarrow> nat \<Rightarrow> real \<Rightarrow> RequestMetrics" where
  "sampleMetric t st rt =
     \<lparr>timestamp = t, http_method = ''GET'', path = ''/api/v1/content/:id'', statusCode = st,
      responseTime = rt, service = Some ''content'', userId = None\<rparr>"

definition calmHistory :: "RequestMetrics list" where
  "calmHistory = [sampleMetric 1000 200 100, sampleMetric 2000 200 120]"

definition troubledHistory :: "RequestMetrics list" where
  "troubledHistory = [sampleMetric 1000 200 100, sampleMetric 2000 404 5000]"

section \<open>Properties\<close>

subsection \<open>Circuit breaker\<close>

text \<open>
  C10. With no recorded call (\<open>successCount + failureCount = 0\<close>) the reported uptime
  is 100; with at least one recorded call it is \<open>successCount / (successCount +
  failureCount)\<close> times 100. \<open>getMetrics\<close> reports exactly this value.
\<close>

theorem C10_uptime:
  "uptime (getMetrics cb) = calculateUptime cb \<and>
   (successCount cb + failureCount cb = 0 \<longrightarrow> calculateUptime cb = 100) \<and>
   (0 < successCount cb + failureCount cb \<longrightarrow>
      calculateUptime cb
        = real (successCount cb) / real (successCount cb + failureCount cb) * 100)"
  by (simp add: getMetrics_def calculateUptime_def Let_def add.commute)

theorem C10_uptime_witness:
  "successCount (newCircuitBreaker ''content'' sampleOptions)
     + failureCount (newCircuitBreaker ''content'' sampleOptions) = 0 \<and>
   calculateUptime (newCircuitBreaker ''content'' sampleOptions) = 100 \<and>
   0 < successCount (openedBreaker\<lparr>successCount := 1\<rparr>)
     + failureCount (openedBreaker\<lparr>successCount := 1\<rparr>) \<and>
   calculateUptime (openedBreaker\<lparr>successCount := 1\<rparr>) = 25 \<and>
   uptime (getMetrics (openedBreaker\<lparr>successCount := 1\<rparr>)) = 25"
  using C10_uptime [of "newCircuitBreaker ''content'' sampleOptions"]
    C10_uptime [of "openedBreaker\<lparr>successCount := 1\<rparr>"]
  by (simp add: newCircuitBreaker_def openedBreaker_def)

lemma execute_closed_failure:
  assumes "state cb = CLOSED" and "fn w = (Rejected e, w')" and "\<not> isExpectedError cb e"
  shows "execute clk fn cb w =
     (Threw e,
      (if threshold (options cb) \<le> int (failureCount cb) + 1
       then cb\<lparr>failureCount := failureCount cb + 1, lastFailureTime := Some (atFailure clk),
               state := OPEN, nextRetryTime := Some (atOpen clk + resetTimeout (options cb))\<rparr>
       else cb\<lparr>failureCount := failureCount cb + 1, lastFailureTime := Some (atFailure clk)\<rparr>),
      w')"
  using assms
  by (simp add: execute_def executeGuard_def executeSettle_def onFailure_def openCircuit_def Let_def)

lemma executeAll_append:
  "executeAll (xs @ ys) cb w =
     (case executeAll xs cb w of (cb', w') \<Rightarrow> executeAll ys cb' w')"
  by (induction xs arbitrary: cb w) (auto split: prod.splits)

lemma executeAll_below_threshold:
  assumes "state cb = CLOSED"
    and "int (failureCount cb) + int (length calls) < threshold (options cb)"
    and "\<forall>call \<in> set calls. \<forall>w. \<exists>e w'. snd call w = (Rejected e, w') \<and> \<not> isExpectedError cb e"
  shows "state (fst (executeAll calls cb w)) = CLOSED \<and>
         failureCount (fst (executeAll calls cb w)) = failureCount cb + length calls \<and>
         options (fst (executeAll calls cb w)) = options cb"
  using assms
proof (induction calls arbitrary: cb w)
  case Nil
  then show ?case by simp
next
  case (Cons call calls)
  obtain e w' where fw: "snd call w = (Rejected e, w')" and ne: "\<not> isExpectedError cb e"
    using Cons.prems(3) by fastforce
  let ?cb1 = "cb\<lparr>failureCount := failureCount cb + 1, lastFailureTime := Some (atFailure (fst call))\<rparr>"
  have ex: "execute (fst call) (snd call) cb w = (Threw e, ?cb1, w')"
    using execute_closed_failure [where fn = "snd call" and w = w and clk = "fst call", OF Cons.prems(1) fw ne] Cons.prems(2) by simp
  have "state (fst (executeAll calls ?cb1 w')) = CLOSED \<and>
        failureCount (fst (executeAll calls ?cb1 w')) = failureCount ?cb1 + length calls \<and>
        options (fst (executeAll calls ?cb1 w')) = options ?cb1"
  proof (rule Cons.IH)
    show "state ?cb1 = CLOSED" using Cons.prems(1) by simp
    show "int (failureCount ?cb1) + int (length calls) < threshold (options ?cb1)"
      using Cons.prems(2) by simp
    show "\<forall>call\<in>set calls. \<forall>w. \<exists>e w'. snd call w = (Rejected e, w') \<and> \<not> isExpectedError ?cb1 e"
      using Cons.prems(3) by (simp add: isExpectedError_def)
  qed
  then show ?case using ex by simp
qed

lemma executeAll_reaches_threshold:
  assumes cl: "state cb = CLOSED" and fc: "failureCount cb = 0"
    and th: "threshold (options cb) = int (length calls)" and ne: "calls \<noteq> []"
    and fl: "\<forall>call \<in> set calls. \<forall>w. \<exists>e w'. snd call w = (Rejected e, w') \<and> \<not> isExpectedError cb e"
  shows "state (fst (executeAll calls cb w)) = OPEN \<and>
         nextRetryTime (fst (executeAll calls cb w))
           = Some (atOpen (fst (last calls)) + resetTimeout (options cb)) \<and>
         (\<forall>k < length calls. state (fst (executeAll (take k calls) cb w)) = CLOSED)"
proof -
  have below: "state (fst (executeAll (take k calls) cb w)) = CLOSED \<and>
         failureCount (fst (executeAll (take k calls) cb w)) = failureCount cb + length (take k calls) \<and>
         options (fst (executeAll (take k calls) cb w)) = options cb"
    if "k < length calls" for k
  proof (rule executeAll_below_threshold [OF cl])
    show "int (failureCount cb) + int (length (take k calls)) < threshold (options cb)"
      using that fc th by simp
    show "\<forall>call\<in>set (take k calls). \<forall>w. \<exists>e w'. snd call w = (Rejected e, w') \<and> \<not> isExpectedError cb e"
    proof (intro ballI)
      fix call assume "call \<in> set (take k calls)"
      then have "call \<in> set calls" by (rule in_set_takeD)
      then show "\<forall>w. \<exists>e w'. snd call w = (Rejected e, w') \<and> \<not> isExpectedError cb e"
        using fl by blast
    qed
  qed
  define cbp where "cbp = fst (executeAll (butlast calls) cb w)"
  define wp where "wp = snd (executeAll (butlast calls) cb w)"
  have bl: "butlast calls = take (length calls - 1) calls"
    by (simp add: butlast_conv_take)
  have k: "length calls - 1 < length calls" using ne by simp
  have p1: "state cbp = CLOSED" and p2: "failureCount cbp = length calls - 1"
    and p3: "options cbp = options cb"
    using below [OF k] fc ne by (simp_all add: cbp_def bl)
  have "last calls \<in> set calls" using ne by simp
  then have "\<exists>e w'. snd (last calls) wp = (Rejected e, w') \<and> \<not> isExpectedError cb e"
    using fl by blast
  then obtain e w' where fw: "snd (last calls) wp = (Rejected e, w')" and nx: "\<not> isExpectedError cb e"
    by blast
  have nx': "\<not> isExpectedError cbp e" using nx p3 by (simp add: isExpectedError_def)
  have split: "calls = butlast calls @ [last calls]" using ne by simp
  have "executeAll calls cb w = executeAll [last calls] cbp wp"
    using executeAll_append [of "butlast calls" "[last calls]" cb w] split
    by (simp add: cbp_def wp_def split: prod.splits)
  moreover have "execute (fst (last calls)) (snd (last calls)) cbp wp =
     (Threw e, cbp\<lparr>failureCount := failureCount cbp + 1,
                   lastFailureTime := Some (atFailure (fst (last calls))), state := OPEN,
                   nextRetryTime := Some (atOpen (fst (last calls)) + resetTimeout (options cbp))\<rparr>, w')"
    using execute_closed_failure [where fn = "snd (last calls)" and w = wp
        and clk = "fst (last calls)", OF p1 fw nx'] p2 p3 th ne
    by simp
  ultimately show ?thesis using below p3 by simp
qed

lemma execute_open_rejects:
  assumes "state cb = OPEN" and "nextRetryTime cb = Some r" and "atEntry clk < r"
  shows "execute clk fn cb w =
           (Threw (Error (''Circuit breaker is OPEN for '' @ serviceName cb)), cb, w)"
  using assms by (simp add: execute_def executeGuard_def shouldAttemptReset_def)

text \<open>
  C1 (as amended). The breaker follows the state machine of the specification:
  \<^item> from CLOSED with \<open>failureCount = 0\<close> and threshold \<open>t > 0\<close>, \<open>t\<close> consecutive calls
    that each fail with an error outside the allow-list leave the breaker OPEN with
    \<open>nextRetryTime\<close> equal to the clock read of the last \<open>open()\<close> plus \<open>resetTimeout\<close>,
    and after every shorter run of such calls it is still CLOSED;
  \<^item> while OPEN with \<open>now < nextRetryTime\<close>, \<open>execute\<close> throws the breaker's own error and
    leaves breaker and world untouched (the wrapped function is not applied);
  \<^item> while OPEN with \<open>now \<ge> nextRetryTime\<close>, the guard moves to HALF_OPEN and \<open>execute\<close>
    is the settlement of one application of the wrapped function in that state;
  \<^item> a call that resolves in HALF_OPEN leaves the breaker CLOSED with both counters 0;
  \<^item> a call that rejects in HALF_OPEN with an error outside the allow-list leaves the
    breaker OPEN with a new \<open>nextRetryTime = now + resetTimeout\<close>.
\<close>

theorem C1_breaker_state_machine:
  "(state cb = CLOSED \<and> failureCount cb = 0 \<and> threshold (options cb) = int (length calls) \<and>
    calls \<noteq> [] \<and>
    (\<forall>call \<in> set calls. \<forall>w. \<exists>e w'. snd call w = (Rejected e, w') \<and> \<not> isExpectedError cb e)
    \<longrightarrow> state (fst (executeAll calls cb w)) = OPEN \<and>
        nextRetryTime (fst (executeAll calls cb w))
          = Some (atOpen (fst (last calls)) + resetTimeout (options cb)) \<and>
        (\<forall>k < length calls. state (fst (executeAll (take k calls) cb w)) = CLOSED)) \<and>
   (state cb = OPEN \<and> nextRetryTime cb = Some r \<and> atEntry clk < r
    \<longrightarrow> execute clk fn cb w
          = (Threw (Error (''Circuit breaker is OPEN for '' @ serviceName cb)), cb, w)) \<and>
   (state cb = OPEN \<and> nextRetryTime cb = Some r \<and> r \<le> atEntry clk
    \<longrightarrow> executeGuard (atEntry clk) cb = Inr (cb\<lparr>state := HALF_OPEN\<rparr>) \<and>
        execute clk fn cb w = executeSettle clk (fn w) (cb\<lparr>state := HALF_OPEN\<rparr>)) \<and>
   (state cb = HALF_OPEN
    \<longrightarrow> (case executeSettle clk (Resolved v, w') cb of
          (res, cb', w'') \<Rightarrow>
             res = Returned v \<and> w'' = w' \<and> state cb' = CLOSED \<and>
             failureCount cb' = 0 \<and> successCount cb' = 0)) \<and>
   (state cb = HALF_OPEN \<and> \<not> isExpectedError cb e
    \<longrightarrow> (case executeSettle clk (Rejected e, w') cb of
          (res, cb', w'') \<Rightarrow>
             res = Threw e \<and> w'' = w' \<and> state cb' = OPEN \<and>
             nextRetryTime cb' = Some (atOpen clk + resetTimeout (options cb))))"
proof (intro conjI impI)
  assume a: "state cb = CLOSED \<and> failureCount cb = 0 \<and> threshold (options cb) = int (length calls) \<and>
    calls \<noteq> [] \<and>
    (\<forall>call \<in> set calls. \<forall>w. \<exists>e w'. snd call w = (Rejected e, w') \<and> \<not> isExpectedError cb e)"
  have r: "state (fst (executeAll calls cb w)) = OPEN \<and>
         nextRetryTime (fst (executeAll calls cb w))
           = Some (atOpen (fst (last calls)) + resetTimeout (options cb)) \<and>
         (\<forall>k < length calls. state (fst (executeAll (take k calls) cb w)) = CLOSED)"
  proof (rule executeAll_reaches_threshold)
    show "state cb = CLOSED" "failureCount cb = 0" "threshold (options cb) = int (length calls)"
      "calls \<noteq> []" using a by blast+
    show "\<forall>call \<in> set calls. \<forall>w. \<exists>e w'. snd call w = (Rejected e, w') \<and> \<not> isExpectedError cb e"
      using a by blast
  qed
  from r show "state (fst (executeAll calls cb w)) = OPEN" by blast
  from r show "nextRetryTime (fst (executeAll calls cb w))
           = Some (atOpen (fst (last calls)) + resetTimeout (options cb))" by blast
  from r show "\<forall>k < length calls. state (fst (executeAll (take k calls) cb w)) = CLOSED" by blast
next
  assume "state cb = OPEN \<and> nextRetryTime cb = Some r \<and> atEntry clk < r"
  then show "execute clk fn cb w
          = (Threw (Error (''Circuit breaker is OPEN for '' @ serviceName cb)), cb, w)"
    by (simp add: execute_open_rejects)
next
  assume a: "state cb = OPEN \<and> nextRetryTime cb = Some r \<and> r \<le> atEntry clk"
  then show "executeGuard (atEntry clk) cb = Inr (cb\<lparr>state := HALF_OPEN\<rparr>)"
    by (simp add: executeGuard_def shouldAttemptReset_def)
  from a show "execute clk fn cb w = executeSettle clk (fn w) (cb\<lparr>state := HALF_OPEN\<rparr>)"
    by (simp add: execute_def executeGuard_def shouldAttemptReset_def)
next
  assume "state cb = HALF_OPEN"
  then show "case executeSettle clk (Resolved v, w') cb of
          (res, cb', w'') \<Rightarrow>
             res = Returned v \<and> w'' = w' \<and> state cb' = CLOSED \<and>
             failureCount cb' = 0 \<and> successCount cb' = 0"
    by (simp add: executeSettle_def onSuccess_def reset_def Let_def)
next
  assume "state cb = HALF_OPEN \<and> \<not> isExpectedError cb e"
  then show "case executeSettle clk (Rejected e, w') cb of
          (res, cb', w'') \<Rightarrow>
             res = Threw e \<and> w'' = w' \<and> state cb' = OPEN \<and>
             nextRetryTime cb' = Some (atOpen clk + resetTimeout (options cb))"
    by (simp add: executeSettle_def onFailure_def openCircuit_def Let_def)
qed

lemma sample_unexpected:
  "\<not> isExpectedError (newCircuitBreaker ''content'' sampleOptions) (Error ''connect ECONNREFUSED'')"
  "\<not> isExpectedError openedBreaker (Error ''connect ECONNREFUSED'')"
  "\<not> isExpectedError (openedBreaker\<lparr>state := HALF_OPEN\<rparr>) (Error ''connect ECONNREFUSED'')"
  by (simp_all add: isExpectedError_def sampleOptions_def newCircuitBreaker_def openedBreaker_def)

lemma sample_expected:
  "isExpectedError openedBreaker (Error ''Request failed with status code 404'')"
  "isExpectedError (openedBreaker\<lparr>state := HALF_OPEN\<rparr>) (Error ''Request failed with status code 404'')"
  by (simp_all add: isExpectedError_def sampleOptions_def openedBreaker_def)

text \<open>
  Three refused connections at 0 s, 1 s and 2 s open the breaker until 32.005 s (the world
  counts the invocations of the wrapped function: 3); a call at 20 s is refused without
  a fourth invocation; a call at 40 s is tried once, and closes the breaker if it
  resolves or reopens it until 70.005 s if it is refused again.
\<close>

theorem C1_breaker_state_machine_witness:
  "executeAll [failingCall 0, failingCall 1000, failingCall 2000]
       (newCircuitBreaker ''content'' sampleOptions) 0 = (openedBreaker, 3) \<and>
   state (fst (executeAll (take 2 [failingCall 0, failingCall 1000, failingCall 2000])
       (newCircuitBreaker ''content'' sampleOptions) 0)) = CLOSED \<and>
   execute (fst (failingCall 20000)) (snd (failingCall 20000)) openedBreaker 3
     = (Threw (Error ''Circuit breaker is OPEN for content''), openedBreaker, 3) \<and>
   execute (fst (succeedingCall 40000)) (snd (succeedingCall 40000)) openedBreaker 3
     = (Returned (), newCircuitBreaker ''content'' sampleOptions, 4) \<and>
   execute (fst (failingCall 40000)) (snd (failingCall 40000)) openedBreaker 3
     = (Threw (Error ''connect ECONNREFUSED''),
        openedBreaker\<lparr>failureCount := 4, lastFailureTime := Some 40005,
                       nextRetryTime := Some 70005\<rparr>, 4)"
proof -
  let ?cb0 = "newCircuitBreaker ''content'' sampleOptions"
  let ?calls = "[failingCall 0, failingCall 1000, failingCall 2000]"
  let ?half = "openedBreaker\<lparr>state := HALF_OPEN\<rparr>"
  let ?e = "Error ''connect ECONNREFUSED''"
  have hyp: "\<forall>call \<in> set ?calls. \<forall>w. \<exists>e w'. snd call w = (Rejected e, w') \<and> \<not> isExpectedError ?cb0 e"
    using sample_unexpected(1) by (simp add: failingCall_def)
  have run: "executeAll ?calls ?cb0 0 = (openedBreaker, 3)"
    by (simp add: failingCall_def execute_def executeGuard_def executeSettle_def onFailure_def
        isExpectedError_def openCircuit_def newCircuitBreaker_def openedBreaker_def sampleOptions_def Let_def)
  have pre: "state ?cb0 = CLOSED \<and> failureCount ?cb0 = 0 \<and>
      threshold (options ?cb0) = int (length ?calls) \<and> ?calls \<noteq> [] \<and>
      (\<forall>call \<in> set ?calls. \<forall>w. \<exists>e w'. snd call w = (Rejected e, w') \<and> \<not> isExpectedError ?cb0 e)"
    using hyp by (simp add: newCircuitBreaker_def sampleOptions_def)
  have a: "state (fst (executeAll ?calls ?cb0 0)) = OPEN \<and>
        nextRetryTime (fst (executeAll ?calls ?cb0 0))
          = Some (atOpen (fst (last ?calls)) + resetTimeout (options ?cb0)) \<and>
        (\<forall>k < length ?calls. state (fst (executeAll (take k ?calls) ?cb0 0)) = CLOSED)"
    by (rule C1_breaker_state_machine [where cb = ?cb0 and calls = ?calls and w = "0::nat",
          THEN conjunct1, THEN mp, OF pre])
  then have all: "\<forall>k < length ?calls. state (fst (executeAll (take k ?calls) ?cb0 0)) = CLOSED"
    by (elim conjE)
  have "2 < length ?calls" by simp
  with all have a2: "state (fst (executeAll (take 2 ?calls) ?cb0 0)) = CLOSED"
    by blast
  have b: "execute (fst (failingCall 20000)) (snd (failingCall 20000)) openedBreaker 3
     = (Threw (Error (''Circuit breaker is OPEN for '' @ serviceName openedBreaker)), openedBreaker, 3)"
    using C1_breaker_state_machine [where cb = openedBreaker and r = 32005
        and clk = "fst (failingCall 20000)" and fn = "snd (failingCall 20000)" and w = "3::nat"]
    by (simp add: openedBreaker_def failingCall_def)
  have c: "execute (fst (succeedingCall 40000)) (snd (succeedingCall 40000)) openedBreaker 3
      = executeSettle (fst (succeedingCall 40000)) (snd (succeedingCall 40000) 3) ?half"
    using C1_breaker_state_machine [where cb = openedBreaker and r = 32005
        and clk = "fst (succeedingCall 40000)" and fn = "snd (succeedingCall 40000)" and w = "3::nat"]
    by (simp add: openedBreaker_def succeedingCall_def)
  have c': "execute (fst (failingCall 40000)) (snd (failingCall 40000)) openedBreaker 3
      = executeSettle (fst (failingCall 40000)) (snd (failingCall 40000) 3) ?half"
    using C1_breaker_state_machine [where cb = openedBreaker and r = 32005
        and clk = "fst (failingCall 40000)" and fn = "snd (failingCall 40000)" and w = "3::nat"]
    by (simp add: openedBreaker_def failingCall_def)
  have d: "case executeSettle (fst (succeedingCall 40000)) (Resolved (), 4::nat) ?half of
          (res, cb', w'') \<Rightarrow>
             res = Returned () \<and> w'' = 4 \<and> state cb' = CLOSED \<and>
             failureCount cb' = 0 \<and> successCount cb' = 0"
    by (rule C1_breaker_state_machine [where cb = ?half and clk = "fst (succeedingCall 40000)"
          and v = "()" and w' = "4::nat",
          THEN conjunct2, THEN conjunct2, THEN conjunct2, THEN conjunct1, THEN mp]) simp
  have e: "case executeSettle (fst (failingCall 40000)) (Rejected ?e, 4::nat) ?half of
          (res, cb', w'') \<Rightarrow>
             res = Threw ?e \<and> w'' = 4 \<and> state cb' = OPEN \<and>
             nextRetryTime cb' = Some (atOpen (fst (failingCall 40000)) + resetTimeout (options ?half))"
    by (rule C1_breaker_state_machine [where cb = ?half and clk = "fst (failingCall 40000)"
          and e = ?e and w' = "4::nat",
          THEN conjunct2, THEN conjunct2, THEN conjunct2, THEN conjunct2, THEN mp])
      (simp add: sample_unexpected(3))
  have d2: "executeSettle (fst (succeedingCall 40000)) (snd (succeedingCall 40000) 3) ?half
      = (Returned (), ?cb0, 4)"
    by (simp add: succeedingCall_def executeSettle_def onSuccess_def reset_def
        newCircuitBreaker_def openedBreaker_def Let_def)
  have e2: "executeSettle (fst (failingCall 40000)) (snd (failingCall 40000) 3) ?half
      = (Threw ?e, openedBreaker\<lparr>failureCount := 4, lastFailureTime := Some 40005,
                       nextRetryTime := Some 70005\<rparr>, 4)"
    by (simp add: failingCall_def executeSettle_def onFailure_def isExpectedError_def openCircuit_def
        openedBreaker_def sampleOptions_def Let_def)
  have b': "execute (fst (failingCall 20000)) (snd (failingCall 20000)) openedBreaker 3
     = (Threw (Error ''Circuit breaker is OPEN for content''), openedBreaker, 3)"
    using b by (simp add: openedBreaker_def)
  show ?thesis
    by (intro conjI run a2 b' c [unfolded d2] c' [unfolded e2])
qed

text \<open>
  C1 as stated says that any failure in HALF_OPEN reopens the breaker. A trial call that
  fails with an allow-listed error (here a 404 of the backend) is not counted: the
  breaker stays HALF_OPEN and \<open>nextRetryTime\<close> keeps its old value.
\<close>

theorem C1_expected_failure_counterexample:
  "execute (fst (notFoundCall 40000)) (snd (notFoundCall 40000)) openedBreaker 3
     = (Threw (Error ''Request failed with status code 404''),
        openedBreaker\<lparr>state := HALF_OPEN\<rparr>, 4) \<and>
   state (openedBreaker\<lparr>state := HALF_OPEN\<rparr>) \<noteq> OPEN \<and>
   nextRetryTime (openedBreaker\<lparr>state := HALF_OPEN\<rparr>) = Some 32005"
  by (simp add: notFoundCall_def execute_def executeGuard_def shouldAttemptReset_def
      executeSettle_def onFailure_def isExpectedError_def sampleOptions_def openedBreaker_def)

text \<open>
  C5. For an error whose message contains an entry of \<open>expectedErrors\<close>, the failure
  handler returns the breaker unchanged, whatever its state: in particular
  \<open>failureCount\<close>, \<open>lastFailureTime\<close> and \<open>state\<close> keep their values.
\<close>

theorem C5_expected_errors_ignored:
  "isExpectedError cb err \<longrightarrow>
     onFailure err tFail tOpen cb = cb \<and>
     failureCount (onFailure err tFail tOpen cb) = failureCount cb \<and>
     lastFailureTime (onFailure err tFail tOpen cb) = lastFailureTime cb \<and>
     state (onFailure err tFail tOpen cb) = state cb"
  by (simp add: onFailure_def)

theorem C5_expected_errors_ignored_witness:
  "isExpectedError openedBreaker (Error ''Request failed with status code 404'') \<and>
   onFailure (Error ''Request failed with status code 404'') 50 60 openedBreaker = openedBreaker \<and>
   isExpectedError (openedBreaker\<lparr>state := HALF_OPEN\<rparr>) (Error ''Request failed with status code 404'') \<and>
   state (onFailure (Error ''Request failed with status code 404'') 50 60
            (openedBreaker\<lparr>state := HALF_OPEN\<rparr>)) = HALF_OPEN \<and>
   failureCount (onFailure (Error ''Request failed with status code 404'') 50 60
            (openedBreaker\<lparr>state := CLOSED\<rparr>)) = 3"
proof -
  let ?e = "Error ''Request failed with status code 404''"
  have x: "isExpectedError (openedBreaker\<lparr>state := CLOSED\<rparr>) ?e"
    by (simp add: isExpectedError_def sampleOptions_def openedBreaker_def)
  show ?thesis
    using sample_expected x
      C5_expected_errors_ignored [of openedBreaker ?e 50 60]
      C5_expected_errors_ignored [of "openedBreaker\<lparr>state := HALF_OPEN\<rparr>" ?e 50 60]
      C5_expected_errors_ignored [of "openedBreaker\<lparr>state := CLOSED\<rparr>" ?e 50 60]
    by (simp add: openedBreaker_def)
qed

subsection \<open>Load balancer\<close>

lemma js_index_nat: "k < length xs \<Longrightarrow> js_index xs (int k) = Some (xs ! k)"
  by (simp add: js_index_def)

lemma roundRobinSelection_nonempty:
  assumes "insts \<noteq> []"
  shows "roundRobinSelection insts lb =
           (Some (insts ! (currentIndex lb mod length insts)),
            lb\<lparr>currentIndex := (currentIndex lb + 1) mod length insts\<rparr>)"
  using assms by (simp add: roundRobinSelection_def js_index_nat)









lemma getNextInstance_round_robin:
  assumes "strategy (lb_options lb) = ''round-robin''" and "getHealthyInstances lb \<noteq> []"
  shows "getNextInstance rnd lb =
           (Some (getHealthyInstances lb ! (currentIndex lb mod length (getHealthyInstances lb))),
            lb\<lparr>currentIndex := (currentIndex lb + 1) mod length (getHealthyInstances lb)\<rparr>)"
  using assms by (simp add: getNextInstance_def roundRobinSelection_nonempty Let_def)

lemma getHealthyInstances_cursor [simp]:
  "getHealthyInstances (lb\<lparr>currentIndex := k\<rparr>) = getHealthyInstances lb"
  by (simp add: getHealthyInstances_def)

text \<open>
  C8. Under round-robin with a non-empty healthy set of size \<open>n\<close>, a selection returns
  the healthy instance at \<open>cursor mod n\<close> and sets the cursor to \<open>(cursor + 1) mod n\<close>.
  With healthy set \<open>[A, B, C]\<close> and cursor 0, four consecutive selections with nothing
  else touching the balancer return A, B, C, A.
\<close>

theorem C8_round_robin_cycle:
  "(strategy (lb_options lb) = ''round-robin'' \<and> getHealthyInstances lb \<noteq> [] \<longrightarrow>
      getNextInstance rnd lb =
        (Some (getHealthyInstances lb ! (currentIndex lb mod length (getHealthyInstances lb))),
         lb\<lparr>currentIndex := (currentIndex lb + 1) mod length (getHealthyInstances lb)\<rparr>)) \<and>
   (strategy (lb_options lb) = ''round-robin'' \<and> getHealthyInstances lb = [A, B, C] \<and>
    currentIndex lb = 0 \<longrightarrow>
      selectMany [r1, r2, r3, r4] lb = ([Some A, Some B, Some C, Some A], lb\<lparr>currentIndex := 1\<rparr>))"
proof (intro conjI impI)
  assume "strategy (lb_options lb) = ''round-robin'' \<and> getHealthyInstances lb \<noteq> []"
  then show "getNextInstance rnd lb =
        (Some (getHealthyInstances lb ! (currentIndex lb mod length (getHealthyInstances lb))),
         lb\<lparr>currentIndex := (currentIndex lb + 1) mod length (getHealthyInstances lb)\<rparr>)"
    by (simp add: getNextInstance_round_robin)
next
  assume a: "strategy (lb_options lb) = ''round-robin'' \<and> getHealthyInstances lb = [A, B, C] \<and>
    currentIndex lb = 0"
  have step: "getNextInstance r (lb\<lparr>currentIndex := k\<rparr>) =
      (Some ([A, B, C] ! (k mod 3)), lb\<lparr>currentIndex := (k + 1) mod 3\<rparr>)" for r k
    using a getNextInstance_round_robin [of "lb\<lparr>currentIndex := k\<rparr>" r] by simp
  have lb0: "lb = lb\<lparr>currentIndex := 0\<rparr>" using a by simp
  have "selectMany [r1, r2, r3, r4] (lb\<lparr>currentIndex := 0\<rparr>)
          = ([Some A, Some B, Some C, Some A], lb\<lparr>currentIndex := 1\<rparr>)"
    by (simp add: step)
  then show "selectMany [r1, r2, r3, r4] lb
          = ([Some A, Some B, Some C, Some A], lb\<lparr>currentIndex := 1\<rparr>)"
    using lb0 by simp
qed

lemma sample_healthy:
  "getHealthyInstances (sampleBalancer s)
     = [sampleInstance ''a'' healthy, sampleInstance ''b'' healthy, sampleInstance ''c'' healthy]"
  "getHealthyInstances (downBalancer s) = []"
  by (simp_all add: getHealthyInstances_def sampleBalancer_def downBalancer_def sampleInstance_def)

lemma sample_fields:
  "strategy (lb_options (sampleBalancer s)) = s"
  "currentIndex (sampleBalancer s) = 0"
  "strategy (lb_options (downBalancer s)) = s"
  "healthCheckTimeout (lb_options (sampleBalancer s)) = 5000"
  "lb_serviceName (sampleBalancer s) = ''content''"
  by (simp_all add: sampleBalancer_def downBalancer_def)


theorem C8_round_robin_cycle_witness:
  "strategy (lb_options (sampleBalancer ''round-robin'')) = ''round-robin'' \<and>
   currentIndex (sampleBalancer ''round-robin'') = 0 \<and>
   getHealthyInstances (sampleBalancer ''round-robin'')
     = [sampleInstance ''a'' healthy, sampleInstance ''b'' healthy, sampleInstance ''c'' healthy] \<and>
   selectMany [0, 0, 0, 0] (sampleBalancer ''round-robin'')
     = ([Some (sampleInstance ''a'' healthy), Some (sampleInstance ''b'' healthy),
         Some (sampleInstance ''c'' healthy), Some (sampleInstance ''a'' healthy)],
        (sampleBalancer ''round-robin'')\<lparr>currentIndex := 1\<rparr>) \<and>
   getNextInstance 0 ((sampleBalancer ''round-robin'')\<lparr>currentIndex := 2\<rparr>)
     = (Some (sampleInstance ''c'' healthy), (sampleBalancer ''round-robin'')\<lparr>currentIndex := 0\<rparr>)"
proof -
  let ?lb = "sampleBalancer ''round-robin''"
  have s: "strategy (lb_options ?lb) = ''round-robin''" "currentIndex ?lb = 0"
    by (simp_all add: sample_fields)
  have s2: "strategy (lb_options (?lb\<lparr>currentIndex := 2\<rparr>)) = ''round-robin''"
    by (simp add: sample_fields)
  have a: "selectMany [0, 0, 0, 0] ?lb
     = ([Some (sampleInstance ''a'' healthy), Some (sampleInstance ''b'' healthy),
         Some (sampleInstance ''c'' healthy), Some (sampleInstance ''a'' healthy)],
        ?lb\<lparr>currentIndex := 1\<rparr>)"
    using C8_round_robin_cycle [where lb = ?lb and A = "sampleInstance ''a'' healthy"
        and B = "sampleInstance ''b'' healthy" and C = "sampleInstance ''c'' healthy"
        and ?r1.0 = 0 and ?r2.0 = 0 and ?r3.0 = 0 and ?r4.0 = 0] s sample_healthy(1)
    by blast
  have b: "getNextInstance 0 (?lb\<lparr>currentIndex := 2\<rparr>)
     = (Some (sampleInstance ''c'' healthy), ?lb\<lparr>currentIndex := 0\<rparr>)"
    using C8_round_robin_cycle [where lb = "?lb\<lparr>currentIndex := 2\<rparr>" and rnd = 0,
        THEN conjunct1] s2 sample_healthy(1) [of "''round-robin''"]
    by simp
  show ?thesis using s a b sample_healthy(1) by blast
qed

subsection \<open>Health probe\<close>

text \<open>
  C4 (as amended). A probe marks the endpoint \<open>healthy\<close> exactly when the GET to its
  health path is answered within \<open>healthCheckTimeout\<close> with status 200 (the probe's
  \<open>validateStatus\<close> accepts nothing else), and then records no error. Every other
  outcome (any other status, the other 2xx codes included, a timeout, a transport error)
  marks it \<open>unhealthy\<close> and records the error message.
\<close>

theorem C4_probe_healthy_iff_200:
  "(status (health (checkInstanceHealth lb startTime endTime checkedAt outcome instance)) = healthy
      \<longleftrightarrow> outcome = Response 200) \<and>
   (outcome = Response 200 \<longrightarrow>
      error (health (checkInstanceHealth lb startTime endTime checkedAt outcome instance)) = None) \<and>
   (outcome \<noteq> Response 200 \<longrightarrow>
      status (health (checkInstanceHealth lb startTime endTime checkedAt outcome instance)) = unhealthy \<and>
      (\<exists>msg. error (health (checkInstanceHealth lb startTime endTime checkedAt outcome instance))
               = Some msg))"
  by (cases outcome) (simp_all add: checkInstanceHealth_def axios_get_def)

theorem C4_probe_healthy_iff_200_witness:
  "status (health (checkInstanceHealth (sampleBalancer ''random'') 1000 1012 1013 (Response 200)
             (sampleInstance ''x'' unhealthy))) = healthy \<and>
   error (health (checkInstanceHealth (sampleBalancer ''random'') 1000 1012 1013 (Response 200)
             (sampleInstance ''x'' unhealthy))) = None \<and>
   TimedOut \<noteq> Response 200 \<and>
   status (health (checkInstanceHealth (sampleBalancer ''random'') 1000 6000 6001 TimedOut
             (sampleInstance ''a'' healthy))) = unhealthy \<and>
   error (health (checkInstanceHealth (sampleBalancer ''random'') 1000 6000 6001 TimedOut
             (sampleInstance ''a'' healthy))) = Some ''timeout of 5000ms exceeded'' \<and>
   status (health (checkInstanceHealth (sampleBalancer ''random'') 1000 1012 1013 (Response 503)
             (sampleInstance ''a'' healthy))) = unhealthy"
proof -
  have m: "error (health (checkInstanceHealth (sampleBalancer ''random'') 1000 6000 6001 TimedOut
             (sampleInstance ''a'' healthy))) = Some ''timeout of 5000ms exceeded''"
    by (simp add: checkInstanceHealth_def axios_get_def sample_fields decimal.simps)
  show ?thesis
    using m
      C4_probe_healthy_iff_200 [of "sampleBalancer ''random''" 1000 1012 1013 "Response 200"
        "sampleInstance ''x'' unhealthy"]
      C4_probe_healthy_iff_200 [of "sampleBalancer ''random''" 1000 6000 6001 TimedOut
        "sampleInstance ''a'' healthy"]
      C4_probe_healthy_iff_200 [of "sampleBalancer ''random''" 1000 1012 1013 "Response 503"
        "sampleInstance ''a'' healthy"]
    by simp
qed

text \<open>
  C4 as stated promises \<open>healthy\<close> for any 2xx answer. A health endpoint that answers
  204 No Content in 12 ms is marked \<open>unhealthy\<close>, with the client's error recorded.
\<close>

theorem C4_other_2xx_counterexample:
  "health (checkInstanceHealth (sampleBalancer ''random'') 1000 1012 1013 (Response 204)
             (sampleInstance ''a'' healthy))
     = \<lparr>h_name = ''content'', h_url = ''http://content-a:3002'', status = unhealthy,
        h_responseTime = 12, lastChecked = 1013,
        error = Some ''Request failed with status code 204''\<rparr>"
  by (simp add: checkInstanceHealth_def axios_get_def sample_fields sampleInstance_def
      decimal.simps)

subsection \<open>Proxy service\<close>

lemma str_includes_prefix: "str_includes (sub @ rest) sub"
proof (cases "sub @ rest")
  case Nil
  then show ?thesis by simp
next
  case (Cons a list)
  have "take (length sub) (a # list) = sub" using Cons [symmetric] by simp
  then have "str_includes (a # list) sub" by simp
  then show ?thesis using Cons by simp
qed

lemma breaker_open_message:
  "str_includes (''Circuit breaker is OPEN for '' @ sn) ''Circuit breaker is OPEN''"
  using str_includes_prefix [of "''Circuit breaker is OPEN''" "'' for '' @ sn"] by simp

text \<open>
  C6. While the breaker is OPEN and \<open>now < nextRetryTime\<close>, \<open>execute\<close> throws the error
  \<open>Circuit breaker is OPEN for <service>\<close> and returns the world as it was: the proxy
  middleware, and with it the load balancer's selection, is not run. The wrapper
  recognises that error and, on a response whose headers are not yet sent, answers 503
  with code \<open>SERVICE_UNAVAILABLE\<close>; nothing is passed to \<open>next\<close>.
\<close>

theorem C6_open_breaker_maps_to_503:
  "state cb = OPEN \<and> nextRetryTime cb = Some r \<and> atEntry clk < r \<and> \<not> headersSent res \<longrightarrow>
     execute clk proxyMiddleware cb (res, w)
       = (Threw (Error (''Circuit breaker is OPEN for '' @ serviceName cb)), cb, (res, w)) \<and>
     wrapWithCircuitBreaker clk now requestId proxyMiddleware svc cb (res, w)
       = (Done, cb,
          (res\<lparr>headersSent := True, res_status := 503,
               res_body := Some
                 \<lparr>success = False, code = ''SERVICE_UNAVAILABLE'',
                  err_message = svc @ '' service is temporarily unavailable'',
                  body_timestamp = now, body_requestId = requestId\<rparr>\<rparr>, w))"
proof (intro impI)
  assume a: "state cb = OPEN \<and> nextRetryTime cb = Some r \<and> atEntry clk < r \<and> \<not> headersSent res"
  have ex: "execute clk proxyMiddleware cb (res, w)
       = (Threw (Error (''Circuit breaker is OPEN for '' @ serviceName cb)), cb, (res, w))"
    using a by (simp add: execute_open_rejects)
  have "wrapWithCircuitBreaker clk now requestId proxyMiddleware svc cb (res, w)
       = (Done, cb,
          (res\<lparr>headersSent := True, res_status := 503,
               res_body := Some
                 \<lparr>success = False, code = ''SERVICE_UNAVAILABLE'',
                  err_message = svc @ '' service is temporarily unavailable'',
                  body_timestamp = now, body_requestId = requestId\<rparr>\<rparr>, w))"
    using a breaker_open_message [of "serviceName cb"]
    by (simp add: wrapWithCircuitBreaker_def ex del: str_includes.simps)
  with ex show "execute clk proxyMiddleware cb (res, w)
       = (Threw (Error (''Circuit breaker is OPEN for '' @ serviceName cb)), cb, (res, w)) \<and>
     wrapWithCircuitBreaker clk now requestId proxyMiddleware svc cb (res, w)
       = (Done, cb,
          (res\<lparr>headersSent := True, res_status := 503,
               res_body := Some
                 \<lparr>success = False, code = ''SERVICE_UNAVAILABLE'',
                  err_message = svc @ '' service is temporarily unavailable'',
                  body_timestamp = now, body_requestId = requestId\<rparr>\<rparr>, w))"
    by blast
qed

text \<open>
  With the world instantiated to a round-robin balancer: the refused request leaves
  the cursor at 0, whereas one run of the proxy middleware would have advanced it to 1.
\<close>

theorem C6_open_breaker_maps_to_503_witness:
  "state openedBreaker = OPEN \<and> nextRetryTime openedBreaker = Some 32005 \<and>
   atEntry (fst (failingCall 20000)) < 32005 \<and> \<not> headersSent freshResponse \<and>
   wrapWithCircuitBreaker (fst (failingCall 20000)) 20001 (Some ''req-1'') sampleProxy ''content''
       openedBreaker (freshResponse, sampleBalancer ''round-robin'')
     = (Done, openedBreaker,
        (\<lparr>headersSent = True, res_status = 503,
          res_body = Some
            \<lparr>success = False, code = ''SERVICE_UNAVAILABLE'',
             err_message = ''content service is temporarily unavailable'',
             body_timestamp = 20001, body_requestId = Some ''req-1''\<rparr>\<rparr>,
         sampleBalancer ''round-robin'')) \<and>
   currentIndex (snd (snd (sampleProxy (freshResponse, sampleBalancer ''round-robin'')))) = 1"
proof -
  have h: "state openedBreaker = OPEN \<and> nextRetryTime openedBreaker = Some 32005 \<and>
      atEntry (fst (failingCall 20000)) < 32005 \<and> \<not> headersSent freshResponse"
    by (simp add: openedBreaker_def failingCall_def freshResponse_def)
  have p: "currentIndex (snd (snd (sampleProxy (freshResponse, sampleBalancer ''round-robin'')))) = 1"
    by (simp add: sampleProxy_def router_def getNextInstance_def sample_healthy sample_fields
        roundRobinSelection_def js_index_def Let_def)
  show ?thesis
    using h p
      C6_open_breaker_maps_to_503 [where cb = openedBreaker and r = 32005
        and clk = "fst (failingCall 20000)" and res = freshResponse
        and w = "sampleBalancer ''round-robin''" and proxyMiddleware = sampleProxy
        and now = 20001 and requestId = "Some ''req-1''" and svc = "''content''"]
    by (simp add: freshResponse_def)
qed

subsection \<open>Rate-limit store\<close>






subsection \<open>Monitoring service\<close>

lemma Math_round_int: "x \<in> \<int> \<Longrightarrow> Math_round (Num x) = Num x"
proof -
  assume "x \<in> \<int>"
  then obtain k where k: "x = of_int k" by (auto elim: Ints_cases)
  have "\<lfloor>(of_int k :: real) + 1 / 2\<rfloor> = k" by linarith
  then show ?thesis using k by simp
qed

lemmas double_eval =
  to_double_def binade_def pow2_def round_half_even_def Let_def compute_bitlen

lemma round_half_even_le: "y \<le> of_int N \<Longrightarrow> round_half_even y \<le> N"
proof -
  assume a: "y \<le> of_int N"
  then have f: "\<lfloor>y\<rfloor> \<le> N" by (simp add: floor_le_iff)
  show ?thesis
  proof (cases "\<lfloor>y\<rfloor> = N")
    case True
    then have "y - of_int \<lfloor>y\<rfloor> \<le> 0" using a by simp
    then show ?thesis using True by (simp add: round_half_even_def Let_def)
  next
    case False
    then have "\<lfloor>y\<rfloor> + 1 \<le> N" using f by linarith
    then show ?thesis using f by (simp add: round_half_even_def Let_def)
  qed
qed

lemma round_half_even_nonneg: "0 \<le> y \<Longrightarrow> 0 \<le> round_half_even y"
proof -
  assume "0 \<le> y"
  then have "0 \<le> \<lfloor>y\<rfloor>" by simp
  then show ?thesis by (simp add: round_half_even_def Let_def)
qed

lemma pow2_pos: "0 < pow2 e"
  by (simp add: pow2_def)

lemma pow2_times: "j \<le> int k \<Longrightarrow> pow2 j * 2 ^ nat (int k - j) = 2 ^ k"
proof (cases "0 \<le> j")
  case True
  assume "j \<le> int k"
  then have "nat j + nat (int k - j) = k" using True by linarith
  then have "(2::real) ^ nat j * 2 ^ nat (int k - j) = 2 ^ k"
    by (metis power_add)
  then show ?thesis using True by (simp add: pow2_def)
next
  case False
  then have "nat (int k - j) = k + nat (- j)" by linarith
  then have "(2::real) ^ nat (int k - j) = 2 ^ k * 2 ^ nat (- j)"
    by (simp add: power_add)
  then show ?thesis using False by (simp add: pow2_def)
qed

lemma binade_lower: "1 \<le> x \<Longrightarrow> pow2 (binade x) \<le> x"
proof -
  assume x: "1 \<le> x"
  then have p: "0 < \<lfloor>x\<rfloor>" by simp
  have b: "0 \<le> bitlen \<lfloor>x\<rfloor> - 1"
    using p bitlen_bounds [OF p] bitlen_nonneg [of "\<lfloor>x\<rfloor>"]
    by (cases "bitlen \<lfloor>x\<rfloor> = 0") auto
  have "(2::int) ^ nat (bitlen \<lfloor>x\<rfloor> - 1) \<le> \<lfloor>x\<rfloor>" using bitlen_bounds [OF p] by blast
  then have "real_of_int (2 ^ nat (bitlen \<lfloor>x\<rfloor> - 1)) \<le> real_of_int \<lfloor>x\<rfloor>"
    by (rule of_int_le_iff [THEN iffD2])
  then have "(2::real) ^ nat (bitlen \<lfloor>x\<rfloor> - 1) \<le> x"
    by (simp add: le_floor_iff)
  then show ?thesis using x b by (simp add: binade_def pow2_def)
qed

lemma binade_small: "x < 1 \<Longrightarrow> binade x \<le> 0"
  using bitlen_nonneg [of "\<lceil>1 / x\<rceil> - 1"] by (simp add: binade_def)

text \<open>
  Rounding never crosses a representable number: \<open>m * 2 ^ k\<close> with \<open>m < 2 ^ 53\<close> is a
  double (no overflow is involved, \<open>to_double\<close> has none).
\<close>

lemma to_double_le:
  assumes xc: "x \<le> real m * 2 ^ k" and m: "m < 2 ^ 53"
  shows "to_double x \<le> real m * 2 ^ k"
proof -
  let ?c = "real m * 2 ^ k"
  have c0: "0 \<le> ?c" by simp
  consider "x = 0" | "x < 0" | "0 < x" by linarith
  then show ?thesis
  proof cases
    case 1
    then show ?thesis using c0 by (simp add: to_double_def)
  next
    case 2
    let ?e = "max (binade \<bar>x\<bar>) (- 1022)"
    let ?u = "pow2 (?e - 52)"
    have "0 \<le> \<bar>x\<bar> / ?u" using pow2_pos [of "?e - 52"] by simp
    then have "0 \<le> round_half_even (\<bar>x\<bar> / ?u)" by (rule round_half_even_nonneg)
    then have "0 \<le> real_of_int (round_half_even (\<bar>x\<bar> / ?u)) * ?u"
      using pow2_pos [of "?e - 52"] by simp
    then have "to_double x \<le> 0" using 2 by (simp add: to_double_def Let_def)
    then show ?thesis using c0 by linarith
  next
    case 3
    let ?e = "max (binade x) (- 1022)"
    let ?u = "pow2 (?e - 52)"
    have u: "0 < ?u" by (rule pow2_pos)
    have td: "to_double x = real_of_int (round_half_even (x / ?u)) * ?u"
      using 3 by (simp add: to_double_def Let_def)
    have small: "?e - 52 \<le> int k"
    proof (rule ccontr)
      assume "\<not> ?e - 52 \<le> int k"
      then have big: "int k + 52 < ?e" by linarith
      then have eb: "?e = binade x" by linarith
      have x1: "1 \<le> x" using binade_small [of x] big eb by linarith
      have "pow2 (binade x) \<le> x" by (rule binade_lower [OF x1])
      moreover have "pow2 (binade x) = 2 ^ nat (binade x)" using big eb by (simp add: pow2_def)
      moreover have "k + 53 \<le> nat (binade x)" using big eb by linarith
      then have "(2::real) ^ (k + 53) \<le> 2 ^ nat (binade x)" by (intro power_increasing) simp_all
      moreover have "real m < 2 ^ 53" using m by (metis of_nat_less_iff of_nat_numeral of_nat_power)
      then have "?c < 2 ^ 53 * 2 ^ k" by simp
      then have "?c < 2 ^ (k + 53)" by (simp add: power_add mult.commute)
      ultimately show False using xc by linarith
    qed
    define N where "N = int m * 2 ^ nat (int k - (?e - 52))"
    have "?u * 2 ^ nat (int k - (?e - 52)) = 2 ^ k" by (rule pow2_times [OF small])
    then have cu: "?c = real_of_int N * ?u" by (simp add: N_def mult.commute mult.left_commute)
    have "x / ?u \<le> real_of_int N" using xc cu u by (simp add: pos_divide_le_eq)
    then have "round_half_even (x / ?u) \<le> N" by (rule round_half_even_le)
    then have "real_of_int (round_half_even (x / ?u)) * ?u \<le> real_of_int N * ?u"
      using u by (simp add: mult_right_mono)
    then show ?thesis using td cu by simp
  qed
qed

lemma to_double_le_nat: "x \<le> real n \<Longrightarrow> n < 2 ^ 53 \<Longrightarrow> to_double x \<le> real n"
  using to_double_le [of x n 0] by simp

lemma percentile_index_bounds:
  assumes "sortedArray \<noteq> []" and "length sortedArray < 2 ^ 53" and "percentile \<le> 100"
  shows "max 0 (\<lceil>to_double (to_double (percentile / 100) * real (length sortedArray))\<rceil> - 1)
           < int (length sortedArray)"
proof -
  let ?n = "length sortedArray"
  have "percentile / 100 \<le> real 1" using assms(3) by simp
  then have q: "to_double (percentile / 100) \<le> real 1" by (rule to_double_le_nat) simp
  have "to_double (percentile / 100) * real ?n \<le> 1 * real ?n"
    using q by (intro mult_right_mono) simp_all
  then have "to_double (to_double (percentile / 100) * real ?n) \<le> real ?n"
    using assms(2) by (intro to_double_le_nat) simp_all
  then have "\<lceil>to_double (to_double (percentile / 100) * real ?n)\<rceil> \<le> int ?n"
    by (simp add: ceiling_le_iff)
  then show ?thesis using assms(1) by simp
qed

text \<open>
  C2 (as amended). For a non-empty array of length \<open>n < 2 ^ 53\<close> (every JavaScript array)
  and a percentile \<open>p \<le> 100\<close>, the index \<open>max 0 (ceil(p / 100 * n) - 1)\<close> that the code
  reads, with the quotient and the product rounded to doubles, lies in \<open>[0, n - 1]\<close>, so
  that clamping it from above changes nothing, and the result is \<open>Math.round\<close> of the
  element there: the element itself when it is an integer. On
  \<open>[100, 150, 200, 250, 300]\<close> the p50 is 200 and the p95 is 300.
\<close>

theorem C2_percentile_index:
  "(sortedArray \<noteq> [] \<and> length sortedArray < 2 ^ 53 \<and> percentile \<le> 100 \<longrightarrow>
      (let n = length sortedArray;
           index = max 0 (\<lceil>to_double (to_double (percentile / 100) * real n)\<rceil> - 1)
       in index = min (int n - 1) index \<and>
          calculatePercentile sortedArray percentile = Math_round (Num (sortedArray ! nat index)) \<and>
          (sortedArray ! nat index \<in> \<int> \<longrightarrow>
             calculatePercentile sortedArray percentile = Num (sortedArray ! nat index)))) \<and>
   calculatePercentile [100, 150, 200, 250, 300] 50 = Num 200 \<and>
   calculatePercentile [100, 150, 200, 250, 300] 95 = Num 300"
proof (intro conjI impI)
  assume a: "sortedArray \<noteq> [] \<and> length sortedArray < 2 ^ 53 \<and> percentile \<le> 100"
  let ?n = "length sortedArray"
  let ?i = "max 0 (\<lceil>to_double (to_double (percentile / 100) * real ?n)\<rceil> - 1)"
  have b: "?i < int ?n" using percentile_index_bounds a by blast
  have c: "calculatePercentile sortedArray percentile = Math_round (Num (sortedArray ! nat ?i))"
    using a b by (simp add: calculatePercentile_def js_index_def Let_def)
  have d: "?i = min (int ?n - 1) ?i" using b by linarith
  show "let n = length sortedArray;
           index = max 0 (\<lceil>to_double (to_double (percentile / 100) * real n)\<rceil> - 1)
       in index = min (int n - 1) index \<and>
          calculatePercentile sortedArray percentile = Math_round (Num (sortedArray ! nat index)) \<and>
          (sortedArray ! nat index \<in> \<int> \<longrightarrow>
             calculatePercentile sortedArray percentile = Num (sortedArray ! nat index))"
    unfolding Let_def using c d Math_round_int by metis
next
  show "calculatePercentile [100, 150, 200, 250, 300] 50 = Num 200"
    by (simp add: calculatePercentile_def js_index_def double_eval)
  show "calculatePercentile [100, 150, 200, 250, 300] 95 = Num 300"
    by (simp add: calculatePercentile_def js_index_def double_eval)
qed

text \<open>
  C2 as stated takes the index \<open>ceil(p / 100 * n) - 1\<close> of exact arithmetic, clamps it on
  both sides and promises the element itself. In doubles \<open>7 / 100 * 100\<close> is
  7.000000000000001: on the hundred response times 0, 1, ..., 99 the p7 is read at index
  7, not 6. The index is not clamped from above: percentile 150 reads past the end and
  yields \<open>NaN\<close>, not the last element. The element is rounded: on the single response
  time 100.6 ms the p50 is 101.
\<close>

theorem C2_double_unclamped_rounded_counterexample:
  "calculatePercentile (map real [0..<100]) 7 = Num 7 \<and>
   map real [0..<100] ! nat (min 99 (max 0 (\<lceil>(7 / 100) * (100::real)\<rceil> - 1))) = 6 \<and>
   calculatePercentile [100, 150, 200, 250, 300] 150 = NaN \<and>
   calculatePercentile [100, 150, 200, 250, 300] 150
     \<noteq> Num ([100, 150, 200, 250, 300] ! nat (min 4 (max 0 (\<lceil>(150 / 100) * (5::real)\<rceil> - 1)))) \<and>
   calculatePercentile [503 / 5] 50 = Num 101 \<and>
   calculatePercentile [503 / 5] 50
     \<noteq> Num ([503 / 5] ! nat (min 0 (max 0 (\<lceil>(50 / 100) * (1::real)\<rceil> - 1))))"
  by (simp add: calculatePercentile_def js_index_def double_eval)

theorem C2_percentile_index_witness:
  "[100, 150, 200, 250, 300] \<noteq> ([] :: real list) \<and>
   length [100, 150, 200, 250, 300 :: real] < 2 ^ 53 \<and> (99::real) \<le> 100 \<and>
   calculatePercentile [100, 150, 200, 250, 300] 99 = Num 300 \<and>
   calculatePercentile [100, 150, 200, 250, 300] (-5) = Num 100 \<and>
   calculatePercentile [503 / 5, 201 / 2] 50 = Num 101 \<and>
   calculatePercentile (map real [0..<100]) 7 = Num 7"
proof -
  have i: "to_double (to_double (99 / 100) * 5) = 5573204538870989 / 1125899906842624"
    "to_double (to_double (- 5 / 100) * 5) = - (1 / 4)"
    "to_double (to_double (50 / 100) * 2) = 1"
    "to_double (to_double (7 / 100) * 100) = 7881299347898369 / 1125899906842624"
    by (simp_all add: double_eval)
  have a: "calculatePercentile [100, 150, 200, 250, 300] 99 = Num 300"
    using C2_percentile_index [of "[100, 150, 200, 250, 300]" 99] i(1)
    by (simp add: Let_def)
  have b: "calculatePercentile [100, 150, 200, 250, 300] (-5) = Num 100"
    using C2_percentile_index [of "[100, 150, 200, 250, 300]" "-5"] i(2)
    by (simp add: Let_def)
  have c: "calculatePercentile [503 / 5, 201 / 2] 50 = Num 101"
    using C2_percentile_index [of "[503 / 5, 201 / 2]" 50] i(3)
    by (simp add: Let_def)
  have d: "calculatePercentile (map real [0..<100]) 7 = Num 7"
    using C2_percentile_index [of "map real [0..<100]" 7] i(4)
    by (simp add: Let_def)
  show ?thesis using a b c d by simp
qed

lemma getHealthScore_values:
  "f_value (errorRate (factors (getHealthScore ta tv ms)))
     = Num (if 0 < requestCount (getAggregatedMetrics ta ms)
            then (real (errorCount (getAggregatedMetrics ta ms))
                    / real (requestCount (getAggregatedMetrics ta ms))) * 100
            else 0)"
  "f_value (responseTimeFactor (factors (getHealthScore ta tv ms))) = p95 (getAggregatedMetrics ta ms)"
  "f_value (throughput (factors (getHealthScore ta tv ms)))
     = Num (real (requestCount (getAggregatedMetrics ta ms)))"
  "f_value (availability (factors (getHealthScore ta tv ms))) = Num (calculateAvailability tv ms)"
  by (simp_all add: getHealthScore_def Let_def)

text \<open>The score as a function of the four factor values, when none of them is \<open>NaN\<close>.\<close>

lemma getHealthScore_score:
  assumes "f_value (errorRate (factors (getHealthScore ta tv ms))) = Num e"
    and "f_value (responseTimeFactor (factors (getHealthScore ta tv ms))) = Num r"
    and "f_value (throughput (factors (getHealthScore ta tv ms))) = Num t"
    and "f_value (availability (factors (getHealthScore ta tv ms))) = Num a"
  shows "score (getHealthScore ta tv ms)
     = Num (of_int \<lfloor>max 0 (100 - e * 2) * 30 / 100 + max 0 (100 - min (r / 50) 100) * 25 / 100
                     + min 100 (t / 10) * 20 / 100 + a * 25 / 100 + 1 / 2\<rfloor>)"
proof -
  have e: "e = (if 0 < requestCount (getAggregatedMetrics ta ms)
            then (real (errorCount (getAggregatedMetrics ta ms))
                    / real (requestCount (getAggregatedMetrics ta ms))) * 100
            else 0)"
    using assms(1) by (simp only: getHealthScore_values JsNumber.inject)
  have r: "p95 (getAggregatedMetrics ta ms) = Num r"
    using assms(2) by (simp only: getHealthScore_values)
  have t: "t = real (requestCount (getAggregatedMetrics ta ms))"
    using assms(3) by (simp only: getHealthScore_values JsNumber.inject)
  have a: "a = calculateAvailability tv ms"
    using assms(4) by (simp only: getHealthScore_values JsNumber.inject)
  show ?thesis
    unfolding e t a by (simp add: getHealthScore_def Let_def r)
qed

lemma score_monotone:
  fixes e1 e2 r1 r2 t a :: real
  assumes "e1 \<le> e2" and "r1 \<le> r2"
  shows "\<lfloor>max 0 (100 - e2 * 2) * 30 / 100 + max 0 (100 - min (r2 / 50) 100) * 25 / 100
            + min 100 (t / 10) * 20 / 100 + a * 25 / 100 + 1 / 2\<rfloor>
         \<le> \<lfloor>max 0 (100 - e1 * 2) * 30 / 100 + max 0 (100 - min (r1 / 50) 100) * 25 / 100
            + min 100 (t / 10) * 20 / 100 + a * 25 / 100 + 1 / 2\<rfloor>"
proof -
  have x: "max 0 (100 - e2 * 2) \<le> max 0 (100 - e1 * 2)" using assms(1) by simp
  have "min (r1 / 50) 100 \<le> min (r2 / 50) 100" using assms(2) by simp
  then have y: "max 0 (100 - min (r2 / 50) 100) \<le> max 0 (100 - min (r1 / 50) 100)" by simp
  show ?thesis by (intro floor_mono) (use x y in linarith)
qed

text \<open>Below 95 % of any natural number there is a double no greater than the number.\<close>

lemma to_double_le_any_nat:
  assumes "x \<le> (19 / 20) * real n"
  shows "to_double x \<le> real n"
proof (cases "n < 2 ^ 53")
  case True
  have "x \<le> real n" using assms by linarith
  then show ?thesis using True by (rule to_double_le_nat)
next
  case False
  then have n53: "(2::nat) ^ 53 \<le> n" by simp
  have "(0::nat) < 2 ^ 53" by simp
  then have npos: "0 < int n" using n53 by linarith
  define b where "b = bitlen (int n)"
  have bb: "2 ^ nat (b - 1) \<le> int n" "int n < 2 ^ nat b"
    using bitlen_bounds [OF npos] by (simp_all add: b_def)
  have b53: "53 < b"
  proof (rule ccontr)
    assume "\<not> 53 < b"
    then have "nat b \<le> 53" by simp
    then have "(2::int) ^ nat b \<le> 2 ^ 53" by (intro power_increasing) simp_all
    then have "int n < 2 ^ 53" using bb(2) by linarith
    moreover have "int (2 ^ 53) \<le> int n" using n53 by (rule of_nat_mono)
    ultimately show False by simp
  qed
  define k where "k = nat (b - 53)"
  define m where "m = n div 2 ^ k"
  have kb: "nat b = k + 53" "nat (b - 1) = k + 52" using b53 by (simp_all add: k_def)
  have "int n < int (2 ^ (k + 53))" using bb(2) kb(1) by simp
  then have "n < 2 ^ (k + 53)" by (rule of_nat_less_iff [THEN iffD1])
  then have "n < 2 ^ 53 * 2 ^ k" by (simp add: power_add mult.commute)
  then have m53: "m < 2 ^ 53" by (simp add: m_def less_mult_imp_div_less)
  have "int (2 ^ (k + 52)) \<le> int n" using bb(1) kb(2) by simp
  then have "real_of_int (int (2 ^ (k + 52))) \<le> real_of_int (int n)"
    by (rule of_int_le_iff [THEN iffD2])
  then have r2: "(2::real) ^ k * 2 ^ 52 \<le> real n" by (simp add: power_add)
  have md: "m * 2 ^ k + n mod 2 ^ k = n" unfolding m_def by (rule div_mult_mod_eq)
  have "n mod 2 ^ k < 2 ^ k" by simp
  then have "n < m * 2 ^ k + 2 ^ k" using md by linarith
  then have "real n < real (m * 2 ^ k + 2 ^ k)" by (rule of_nat_less_iff [THEN iffD2])
  then have r1: "real n < real m * 2 ^ k + 2 ^ k" by simp
  have "(20::real) * 2 ^ k \<le> 2 ^ k * 2 ^ 52" by simp
  then have "(2::real) ^ k \<le> real n / 20" using r2 by linarith
  then have "(19 / 20) * real n \<le> real m * 2 ^ k" using r1 by linarith
  then have "x \<le> real m * 2 ^ k" using assms by linarith
  then have "to_double x \<le> real m * 2 ^ k" using m53 by (rule to_double_le)
  moreover have "m * 2 ^ k \<le> n" using md by linarith
  then have "real (m * 2 ^ k) \<le> real n" by (rule of_nat_mono)
  then have "real m * 2 ^ k \<le> real n" by simp
  ultimately show ?thesis by linarith
qed

lemma to_double_95: "to_double (19 / 20) = 4278419646001971 / 4503599627370496"
  by (simp add: double_eval)

lemma calculatePercentile_p95_defined:
  "\<exists>v. calculatePercentile sortedArray 95 = Num v"
proof (cases "sortedArray = []")
  case True
  then show ?thesis by (simp add: calculatePercentile_def)
next
  case False
  let ?n = "length sortedArray"
  have "to_double (95 / 100) * real ?n \<le> (19 / 20) * real ?n"
    by (intro mult_right_mono) (simp_all add: to_double_95)
  then have "to_double (to_double (95 / 100) * real ?n) \<le> real ?n"
    by (rule to_double_le_any_nat)
  then have "\<lceil>to_double (to_double (95 / 100) * real ?n)\<rceil> \<le> int ?n"
    by (simp add: ceiling_le_iff)
  then have "max 0 (\<lceil>to_double (to_double (95 / 100) * real ?n)\<rceil> - 1) < int ?n"
    using False by simp
  then show ?thesis using False by (simp add: calculatePercentile_def js_index_def Let_def)
qed

lemma getHealthScore_values_defined:
  "\<exists>e r t a.
      f_value (errorRate (factors (getHealthScore ta tv ms))) = Num e \<and>
      f_value (responseTimeFactor (factors (getHealthScore ta tv ms))) = Num r \<and>
      f_value (throughput (factors (getHealthScore ta tv ms))) = Num t \<and>
      f_value (availability (factors (getHealthScore ta tv ms))) = Num a"
proof -
  have "\<exists>r. p95 (getAggregatedMetrics ta ms) = Num r"
    using calculatePercentile_p95_defined by (simp add: getAggregatedMetrics_def Let_def)
  then show ?thesis by (simp add: getHealthScore_values)
qed

text \<open>
  C9. The four factor values of a health score are always numbers (the p95 is never
  \<open>NaN\<close>). For two metric states whose scores are computed with the same throughput
  value and the same availability value, if the first has an error-rate value and a p95
  value no greater than the second's, then the second's score is no greater than the
  first's. (Taking one of the two values equal gives monotonicity in the other alone.)
\<close>

theorem C9_health_score_monotone:
  "(\<exists>e r t a.
      f_value (errorRate (factors (getHealthScore ta1 tv1 ms1))) = Num e \<and>
      f_value (responseTimeFactor (factors (getHealthScore ta1 tv1 ms1))) = Num r \<and>
      f_value (throughput (factors (getHealthScore ta1 tv1 ms1))) = Num t \<and>
      f_value (availability (factors (getHealthScore ta1 tv1 ms1))) = Num a) \<and>
   (f_value (throughput (factors (getHealthScore ta1 tv1 ms1)))
      = f_value (throughput (factors (getHealthScore ta2 tv2 ms2))) \<and>
    f_value (availability (factors (getHealthScore ta1 tv1 ms1)))
      = f_value (availability (factors (getHealthScore ta2 tv2 ms2))) \<and>
    js_le (f_value (errorRate (factors (getHealthScore ta1 tv1 ms1))))
          (f_value (errorRate (factors (getHealthScore ta2 tv2 ms2)))) \<and>
    js_le (f_value (responseTimeFactor (factors (getHealthScore ta1 tv1 ms1))))
          (f_value (responseTimeFactor (factors (getHealthScore ta2 tv2 ms2))))
    \<longrightarrow> js_le (score (getHealthScore ta2 tv2 ms2)) (score (getHealthScore ta1 tv1 ms1)))"
proof (intro conjI impI)
  show "\<exists>e r t a.
      f_value (errorRate (factors (getHealthScore ta1 tv1 ms1))) = Num e \<and>
      f_value (responseTimeFactor (factors (getHealthScore ta1 tv1 ms1))) = Num r \<and>
      f_value (throughput (factors (getHealthScore ta1 tv1 ms1))) = Num t \<and>
      f_value (availability (factors (getHealthScore ta1 tv1 ms1))) = Num a"
    by (rule getHealthScore_values_defined)
next
  let ?h1 = "getHealthScore ta1 tv1 ms1" and ?h2 = "getHealthScore ta2 tv2 ms2"
  assume h: "f_value (throughput (factors ?h1)) = f_value (throughput (factors ?h2)) \<and>
   f_value (availability (factors ?h1)) = f_value (availability (factors ?h2)) \<and>
   js_le (f_value (errorRate (factors ?h1))) (f_value (errorRate (factors ?h2))) \<and>
   js_le (f_value (responseTimeFactor (factors ?h1))) (f_value (responseTimeFactor (factors ?h2)))"
  obtain e1 r1 t a where e1: "f_value (errorRate (factors ?h1)) = Num e1"
    and r1: "f_value (responseTimeFactor (factors ?h1)) = Num r1"
    and t1: "f_value (throughput (factors ?h1)) = Num t"
    and a1: "f_value (availability (factors ?h1)) = Num a"
    using getHealthScore_values_defined [of ta1 tv1 ms1] by blast
  obtain e2 r2 t' a' where e2: "f_value (errorRate (factors ?h2)) = Num e2"
    and r2: "f_value (responseTimeFactor (factors ?h2)) = Num r2"
    and t2': "f_value (throughput (factors ?h2)) = Num t'"
    and a2': "f_value (availability (factors ?h2)) = Num a'"
    using getHealthScore_values_defined [of ta2 tv2 ms2] by blast
  have t2: "f_value (throughput (factors ?h2)) = Num t" using h t1 by simp
  have a2: "f_value (availability (factors ?h2)) = Num a" using h a1 by simp
  have ele: "e1 \<le> e2" using h e1 e2 by simp
  have rle: "r1 \<le> r2" using h r1 r2 by simp
  show "js_le (score ?h2) (score ?h1)"
    unfolding getHealthScore_score [OF e1 r1 t1 a1] getHealthScore_score [OF e2 r2 t2 a2]
    using score_monotone [OF ele rle, of t a] by simp
qed

lemma sample_scores:
  "getHealthScore 5000 5000 calmHistory =
     \<lparr>score = Num 79,
      factors =
        \<lparr>errorRate = \<lparr>f_value = Num 0, f_weight = 30, f_impact = Num 100\<rparr>,
         responseTimeFactor = \<lparr>f_value = Num 120, f_weight = 25, f_impact = Num (488 / 5)\<rparr>,
         throughput = \<lparr>f_value = Num 2, f_weight = 20, f_impact = Num (1 / 5)\<rparr>,
         availability = \<lparr>f_value = Num 100, f_weight = 25, f_impact = Num 100\<rparr>\<rparr>\<rparr>"
  "getHealthScore 5000 5000 troubledHistory =
     \<lparr>score = Num 25,
      factors =
        \<lparr>errorRate = \<lparr>f_value = Num 50, f_weight = 30, f_impact = Num 0\<rparr>,
         responseTimeFactor = \<lparr>f_value = Num 5000, f_weight = 25, f_impact = Num 0\<rparr>,
         throughput = \<lparr>f_value = Num 2, f_weight = 20, f_impact = Num (1 / 5)\<rparr>,
         availability = \<lparr>f_value = Num 100, f_weight = 25, f_impact = Num 100\<rparr>\<rparr>\<rparr>"
  by (simp_all add: getHealthScore_def getAggregatedMetrics_def calculateAvailability_def
      calculatePercentile_def js_index_def calmHistory_def troubledHistory_def sampleMetric_def
      double_eval)

theorem C9_health_score_monotone_witness:
  "f_value (throughput (factors (getHealthScore 5000 5000 calmHistory)))
     = f_value (throughput (factors (getHealthScore 5000 5000 troubledHistory))) \<and>
   f_value (availability (factors (getHealthScore 5000 5000 calmHistory)))
     = f_value (availability (factors (getHealthScore 5000 5000 troubledHistory))) \<and>
   f_value (errorRate (factors (getHealthScore 5000 5000 calmHistory))) = Num 0 \<and>
   f_value (errorRate (factors (getHealthScore 5000 5000 troubledHistory))) = Num 50 \<and>
   f_value (responseTimeFactor (factors (getHealthScore 5000 5000 calmHistory))) = Num 120 \<and>
   f_value (responseTimeFactor (factors (getHealthScore 5000 5000 troubledHistory))) = Num 5000 \<and>
   score (getHealthScore 5000 5000 calmHistory) = Num 79 \<and>
   score (getHealthScore 5000 5000 troubledHistory) = Num 25 \<and>
   js_le (score (getHealthScore 5000 5000 troubledHistory))
         (score (getHealthScore 5000 5000 calmHistory))"
proof -
  have "js_le (score (getHealthScore 5000 5000 troubledHistory))
              (score (getHealthScore 5000 5000 calmHistory))"
    by (rule C9_health_score_monotone [of 5000 5000 calmHistory 5000 5000 troubledHistory, THEN conjunct2, THEN mp])
       (simp add: sample_scores)
  then show ?thesis by (simp add: sample_scores)
qed

end
